theory Spec2Isabelle
  imports Complex_Main
begin

section \<open>Data model\<close>

text \<open>
  The processor of \<^verbatim>\<open>data_processor.py\<close> keeps one pandas table \<^verbatim>\<open>self.df\<close>.
  A table is modelled by its column labels and its rows; a row gives the cell stored
  under every label. Cells are what the source puts into the table: strings, floating-point
  numbers, timestamps and the missing value (\<^verbatim>\<open>NaN\<close>, \<^verbatim>\<open>None\<close>, \<^verbatim>\<open>NaT\<close>, all read as
  missing by pandas and modelled by the one value \<open>NA\<close>).

  Floating-point numbers are idealised: a finite float is a real number, the two infinities
  are values of their own, and \<^verbatim>\<open>NaN\<close> is \<open>NA\<close>. Rounding and the sign of zero are not modelled.
  A Python string is the list of its Unicode code points; \<open>ascii\<close> turns a literal of this
  theory into such a string. Column labels and file paths are only compared and stay
  literals.
\<close>

type_synonym str = "nat list"

definition ascii :: "string \<Rightarrow> str" where
  "ascii s = map of_char s"

datatype num = Fin real | PosInf | NegInf

datatype timestamp = Timestamp (ts_year: int) (ts_month: nat) (ts_day: nat)

datatype cell = is_Str: Str str | is_Num: Num num | is_Date: Date timestamp | NA

datatype error = RequestException | ValueError | KeyError | TypeError | AttributeError | OSError

record frame =
  columns :: "string list"
  rows :: "(string \<Rightarrow> cell) list"

record processor =
  cache_file :: string
  df :: "frame option"

text \<open>
  The content of a file on disk, as far as the cache is concerned: a parquet file holds a
  table with its typed cells, a CSV file holds the column labels and the text of every
  field, and any other file holds neither.
\<close>

datatype content =
  Parquet_file "string list" "cell list list"
  | Csv_file "string list" "str list list"
  | Other_file

text \<open>
  The Unicode character database, which decides what \<^verbatim>\<open>str.title\<close> and \<^verbatim>\<open>str.strip\<close> do
  outside ASCII: the full lower-case and title-case mappings of a code point, and whether
  it is cased, case-ignorable or whitespace. Below 128 the rules are written out in the
  section on strings and the database is not consulted, but for \<open>case_ignorable\<close>.
\<close>

record unicode =
  lower_full :: "nat \<Rightarrow> nat list"
  title_full :: "nat \<Rightarrow> nat list"
  cased :: "nat \<Rightarrow> bool"
  case_ignorable :: "nat \<Rightarrow> bool"
  whitespace :: "nat \<Rightarrow> bool"

text \<open>
  What the source takes from its libraries without defining it is a parameter:
  \<^item> the parsers behind \<^verbatim>\<open>pd.to_numeric\<close> and \<^verbatim>\<open>pd.to_datetime\<close>, both called with
    \<^verbatim>\<open>errors='coerce'\<close>, so that a value that does not parse is missing and never an
    exception; the date parser sees the whole column, since pandas may settle the format
    on one entry and read the others with it;
  \<^item> the Unicode database;
  \<^item> the order in which Python's \<^verbatim>\<open>sorted\<close> leaves a list that holds \<^verbatim>\<open>NaN\<close>;
  \<^item> the readers and writers of the two cache formats, and for the CSV format the text
    of a number, the text of a timestamp, the reading of a field as a number or as a
    boolean, the labels that the reader gives to the columns of a header line with an
    empty or a repeated label, and the reading of a file with a control character in a
    field or with a header line of blanks.
\<close>

record pandas =
  str_to_num :: "str \<Rightarrow> num option"
  str_to_datetime :: "cell list \<Rightarrow> str \<Rightarrow> timestamp option"
  num_to_datetime :: "cell list \<Rightarrow> num \<Rightarrow> timestamp option"
  unicode_data :: unicode
  sorted_with_nan :: "cell list \<Rightarrow> error + cell list"
  read_parquet :: "content \<Rightarrow> error + frame"
  read_csv :: "content \<Rightarrow> error + frame"
  to_parquet :: "frame \<Rightarrow> error + content"
  to_csv :: "frame \<Rightarrow> error + content"
  num_text :: "num \<Rightarrow> str"
  datetime_text :: "timestamp \<Rightarrow> str"
  csv_to_num :: "str \<Rightarrow> num option"
  csv_to_bool :: "str \<Rightarrow> cell"
  csv_labels :: "string list \<Rightarrow> string list"
  csv_irregular :: "content \<Rightarrow> error + frame"

section \<open>Floating-point columns\<close>

fun num_less :: "num \<Rightarrow> num \<Rightarrow> bool" where
  "num_less (Fin a) (Fin b) = (a < b)"
| "num_less (Fin a) PosInf = True"
| "num_less NegInf (Fin b) = True"
| "num_less NegInf PosInf = True"
| "num_less _ _ = False"

text \<open>Division of floats; \<open>None\<close> is \<^verbatim>\<open>NaN\<close>. A finite value divided by zero is infinite.\<close>

fun num_div :: "num \<Rightarrow> num \<Rightarrow> num option" where
  "num_div (Fin a) (Fin b) =
     (if b \<noteq> 0 then Some (Fin (a / b))
      else if 0 < a then Some PosInf else if a < 0 then Some NegInf else None)"
| "num_div (Fin a) PosInf = Some (Fin 0)"
| "num_div (Fin a) NegInf = Some (Fin 0)"
| "num_div PosInf (Fin b) = (if b < 0 then Some NegInf else Some PosInf)"
| "num_div NegInf (Fin b) = (if b < 0 then Some PosInf else Some NegInf)"
| "num_div _ _ = None"

fun num_add :: "num \<Rightarrow> num \<Rightarrow> num option" where
  "num_add (Fin a) (Fin b) = Some (Fin (a + b))"
| "num_add PosInf NegInf = None"
| "num_add NegInf PosInf = None"
| "num_add PosInf _ = Some PosInf"
| "num_add _ PosInf = Some PosInf"
| "num_add NegInf _ = Some NegInf"
| "num_add _ NegInf = Some NegInf"

fun float_cell :: "num option \<Rightarrow> cell" where
  "float_cell None = NA"
| "float_cell (Some x) = Num x"

text \<open>\<^verbatim>\<open>pd.to_numeric(column, errors='coerce')\<close>, entry by entry: the result is a float column.\<close>

fun to_numeric :: "pandas \<Rightarrow> cell \<Rightarrow> num option" where
  "to_numeric env (Str s) = str_to_num env s"
| "to_numeric env (Num x) = Some x"
| "to_numeric env (Date t) = None"
| "to_numeric env NA = None"

text \<open>
  \<^verbatim>\<open>Series.median()\<close> skips the missing entries, sorts the others and takes the middle one,
  or the mean of the two middle ones; it is \<^verbatim>\<open>NaN\<close> when no entry is left.
\<close>

fun num_insort :: "num \<Rightarrow> num list \<Rightarrow> num list" where
  "num_insort x [] = [x]"
| "num_insort x (y # ys) = (if num_less y x then y # num_insort x ys else x # y # ys)"

definition num_sort :: "num list \<Rightarrow> num list" where
  "num_sort xs = foldr num_insort xs []"

definition num_mean2 :: "num \<Rightarrow> num \<Rightarrow> num option" where
  "num_mean2 a b = (case num_add a b of None \<Rightarrow> None | Some s \<Rightarrow> num_div s (Fin 2))"

definition dropna :: "num option list \<Rightarrow> num list" where
  "dropna xs = [x. Some x \<leftarrow> xs]"

definition median :: "num option list \<Rightarrow> num option" where
  "median xs =
     (let ys = num_sort (dropna xs); n = length ys in
      if n = 0 then None
      else if odd n then Some (ys ! (n div 2))
      else num_mean2 (ys ! (n div 2 - 1)) (ys ! (n div 2)))"

definition fillna :: "num option list \<Rightarrow> num option \<Rightarrow> num option list" where
  "fillna xs v = map (\<lambda>x. case x of None \<Rightarrow> v | Some y \<Rightarrow> Some y) xs"

text \<open>\<^verbatim>\<open>column > k\<close> on a float column: a missing entry compares false.\<close>

fun cell_gt :: "cell \<Rightarrow> real \<Rightarrow> bool" where
  "cell_gt (Num x) k = num_less (Fin k) x"
| "cell_gt _ k = False"

fun cell_div :: "cell \<Rightarrow> cell \<Rightarrow> cell" where
  "cell_div (Num a) (Num b) = float_cell (num_div a b)"
| "cell_div _ _ = NA"

section \<open>Timestamps\<close>

text \<open>
  \<^verbatim>\<open>pd.to_datetime(column, errors='coerce')\<close>: a timestamp stays as it is, a missing entry
  stays missing, and a string or a number is parsed by pandas, which sees the column.
\<close>

fun to_datetime_entry :: "pandas \<Rightarrow> cell list \<Rightarrow> cell \<Rightarrow> cell" where
  "to_datetime_entry env col (Str s) =
     (case str_to_datetime env col s of None \<Rightarrow> NA | Some t \<Rightarrow> Date t)"
| "to_datetime_entry env col (Num x) =
     (case num_to_datetime env col x of None \<Rightarrow> NA | Some t \<Rightarrow> Date t)"
| "to_datetime_entry env col (Date t) = Date t"
| "to_datetime_entry env col NA = NA"

definition to_datetime :: "pandas \<Rightarrow> cell list \<Rightarrow> cell list" where
  "to_datetime env col = map (to_datetime_entry env col) col"

text \<open>\<^verbatim>\<open>99 - (current_year - column.dt.year)\<close>; the year of a missing timestamp is missing.\<close>

fun lease_remaining_of :: "int \<Rightarrow> cell \<Rightarrow> cell" where
  "lease_remaining_of current_year (Date t) = Num (Fin (real_of_int (99 - (current_year - ts_year t))))"
| "lease_remaining_of current_year _ = NA"

section \<open>Strings\<close>

text \<open>
  The case rules of Python for the code points below 128, and the database for the others.
\<close>

definition is_cased :: "unicode \<Rightarrow> nat \<Rightarrow> bool" where
  "is_cased u c =
     (if c < 128 then (65 \<le> c \<and> c \<le> 90) \<or> (97 \<le> c \<and> c \<le> 122) else cased u c)"

definition to_title :: "unicode \<Rightarrow> nat \<Rightarrow> nat list" where
  "to_title u c =
     (if c < 128 then [if 97 \<le> c \<and> c \<le> 122 then c - 32 else c] else title_full u c)"

definition to_lower :: "unicode \<Rightarrow> nat \<Rightarrow> nat list" where
  "to_lower u c =
     (if c < 128 then [if 65 \<le> c \<and> c \<le> 90 then c + 32 else c] else lower_full u c)"

text \<open>
  The one context-dependent mapping of CPython's \<^verbatim>\<open>lower_ucs4\<close>: a capital sigma (U+03A3)
  becomes the final sigma (U+03C2) when, skipping case-ignorable characters, a cased
  character comes before it and none comes after it, and the small sigma (U+03C3)
  otherwise. \<open>before\<close> holds the characters before the sigma, the nearest first.
\<close>

definition final_sigma :: "unicode \<Rightarrow> nat list \<Rightarrow> nat list \<Rightarrow> bool" where
  "final_sigma u before after =
     (case dropWhile (case_ignorable u) before of
        [] \<Rightarrow> False
      | c # cs \<Rightarrow>
          is_cased u c \<and>
          (case dropWhile (case_ignorable u) after of
             [] \<Rightarrow> True
           | c' # cs' \<Rightarrow> \<not> is_cased u c'))"

definition lower_at :: "unicode \<Rightarrow> nat list \<Rightarrow> nat \<Rightarrow> nat list \<Rightarrow> nat list" where
  "lower_at u before c after =
     (if c = 931 then [if final_sigma u before after then 962 else 963] else to_lower u c)"

text \<open>
  \<^verbatim>\<open>str.title()\<close> (CPython's \<^verbatim>\<open>do_title\<close>): a character is lowered when the character before
  it is cased and title-cased otherwise; the flag follows the character as it was in the
  input.
\<close>

fun title_from :: "unicode \<Rightarrow> bool \<Rightarrow> nat list \<Rightarrow> str \<Rightarrow> str" where
  "title_from u previous_is_cased before [] = []"
| "title_from u previous_is_cased before (c # cs) =
     (if previous_is_cased then lower_at u before c cs else to_title u c)
       @ title_from u (is_cased u c) (c # before) cs"

definition str_title :: "unicode \<Rightarrow> str \<Rightarrow> str" where
  "str_title u s = title_from u False [] s"

text \<open>\<^verbatim>\<open>str.strip()\<close> removes the whitespace at both ends.\<close>

definition is_space :: "unicode \<Rightarrow> nat \<Rightarrow> bool" where
  "is_space u c =
     (if c < 128 then (9 \<le> c \<and> c \<le> 13) \<or> (28 \<le> c \<and> c \<le> 32) else whitespace u c)"

definition str_strip :: "unicode \<Rightarrow> str \<Rightarrow> str" where
  "str_strip u s = rev (dropWhile (is_space u) (rev (dropWhile (is_space u) s)))"

text \<open>The string without the whitespace at its end, as \<^verbatim>\<open>str.rstrip()\<close> gives it.\<close>

definition rstrip :: "unicode \<Rightarrow> str \<Rightarrow> str" where
  "rstrip u s = rev (dropWhile (is_space u) (rev s))"

text \<open>\<^verbatim>\<open>str.title()\<close> on a string of code points below 128, where one character gives one.\<close>

definition ascii_letter :: "nat \<Rightarrow> bool" where
  "ascii_letter c = ((65 \<le> c \<and> c \<le> 90) \<or> (97 \<le> c \<and> c \<le> 122))"

definition ascii_case :: "bool \<Rightarrow> nat \<Rightarrow> nat" where
  "ascii_case previous_is_cased c =
     (if previous_is_cased then (if 65 \<le> c \<and> c \<le> 90 then c + 32 else c)
      else (if 97 \<le> c \<and> c \<le> 122 then c - 32 else c))"

fun ascii_title :: "bool \<Rightarrow> str \<Rightarrow> str" where
  "ascii_title previous_is_cased [] = []"
| "ascii_title previous_is_cased (c # cs) =
     ascii_case previous_is_cased c # ascii_title (ascii_letter c) cs"

definition endswith :: "string \<Rightarrow> string \<Rightarrow> bool" where
  "endswith s suffix = (take (length suffix) (rev s) = rev suffix)"

text \<open>
  The \<^verbatim>\<open>.str\<close> accessor exists on a column of objects: a column that holds a string, or
  nothing but missing values (what pandas makes of JSON nulls, and what the string methods
  themselves return on a column without strings; a column of \<^verbatim>\<open>NaN\<close> floats, which this
  model does not tell from it, has no accessor). On a column of numbers or of timestamps
  the attribute lookup raises \<^verbatim>\<open>AttributeError\<close>. Where it exists, the accessor applies the
  string method to the strings and gives a missing value for every other entry.
\<close>

definition str_accessor :: "cell list \<Rightarrow> bool" where
  "str_accessor col = (list_ex is_Str col \<or> list_all (\<lambda>c. c = NA) col)"

fun str_title_cell :: "unicode \<Rightarrow> cell \<Rightarrow> cell" where
  "str_title_cell u (Str s) = Str (str_title u s)"
| "str_title_cell u _ = NA"

fun str_strip_cell :: "unicode \<Rightarrow> cell \<Rightarrow> cell" where
  "str_strip_cell u (Str s) = Str (str_strip u s)"
| "str_strip_cell u _ = NA"

section \<open>Tables\<close>

definition column :: "frame \<Rightarrow> string \<Rightarrow> cell list" where
  "column d c = map (\<lambda>r. r c) (rows d)"

text \<open>\<^verbatim>\<open>d[c]\<close> raises \<^verbatim>\<open>KeyError\<close> when the table has no column \<^verbatim>\<open>c\<close>.\<close>

definition getitem :: "frame \<Rightarrow> string \<Rightarrow> error + cell list" where
  "getitem d c = (if c \<in> set (columns d) then Inr (column d c) else Inl KeyError)"

text \<open>\<^verbatim>\<open>d[c] = values\<close> replaces the column, or appends it when the label is new.\<close>

definition setitem :: "frame \<Rightarrow> string \<Rightarrow> cell list \<Rightarrow> frame" where
  "setitem d c vs =
     d\<lparr>columns := (if c \<in> set (columns d) then columns d else columns d @ [c]),
       rows := map (\<lambda>(r, v). r(c := v)) (zip (rows d) vs)\<rparr>"

text \<open>\<^verbatim>\<open>d.empty\<close>: no rows or no columns.\<close>

definition empty :: "frame \<Rightarrow> bool" where
  "empty d = (rows d = [] \<or> columns d = [])"

text \<open>\<^verbatim>\<open>d[mask]\<close> keeps the rows whose mask entry is true.\<close>

definition select_rows :: "frame \<Rightarrow> bool list \<Rightarrow> frame" where
  "select_rows d keep = d\<lparr>rows := map fst (filter snd (zip (rows d) keep))\<rparr>"

section \<open>The cleaning pipeline\<close>

text \<open>
  One round of the loop over \<^verbatim>\<open>['resale_price', 'floor_area_sqm']\<close> in \<^verbatim>\<open>_clean_data\<close>:
  coerce the column to numbers, take the median of what is numeric, fill the missing
  entries with it. The first read of the column is the only one that can raise.
\<close>

definition convert_numeric :: "pandas \<Rightarrow> string \<Rightarrow> frame \<Rightarrow> error option \<times> frame" where
  "convert_numeric env col d =
     (case getitem d col of
        Inl e \<Rightarrow> (Some e, d)
      | Inr xs \<Rightarrow>
          let ys = map (to_numeric env) xs;
              median_val = median ys
          in (None, setitem d col (map float_cell (fillna ys median_val))))"

text \<open>
  The lease stage of \<^verbatim>\<open>_clean_data\<close> with its own \<^verbatim>\<open>try/except\<close>: when the read of
  \<^verbatim>\<open>lease_commence_date\<close> raises, nothing has been assigned yet and \<^verbatim>\<open>lease_remaining\<close>
  becomes missing in every row.
\<close>

definition lease_stage :: "pandas \<Rightarrow> int \<Rightarrow> frame \<Rightarrow> frame" where
  "lease_stage env current_year d =
     (case getitem d ''lease_commence_date'' of
        Inl e \<Rightarrow> setitem d ''lease_remaining'' (replicate (length (rows d)) NA)
      | Inr xs \<Rightarrow>
          let d' = setitem d ''lease_commence_date'' (to_datetime env xs)
          in setitem d' ''lease_remaining''
               (map (lease_remaining_of current_year) (column d' ''lease_commence_date'')))"

text \<open>
  The body of \<^verbatim>\<open>_clean_data\<close> on a table that is not empty. The table is changed in place,
  so an exception leaves behind the table as changed so far: the result is the exception,
  if any, and the table. The exceptions are the \<^verbatim>\<open>KeyError\<close> of a column that is not there
  and the \<^verbatim>\<open>AttributeError\<close> of a \<^verbatim>\<open>town\<close> column without the \<^verbatim>\<open>.str\<close> accessor.
\<close>

definition clean_frame :: "pandas \<Rightarrow> int \<Rightarrow> frame \<Rightarrow> error option \<times> frame" where
  "clean_frame env current_year d0 =
     (case getitem d0 ''month'' of
        Inl e \<Rightarrow> (Some e, d0)
      | Inr month \<Rightarrow>
          let d1 = setitem d0 ''month'' (to_datetime env month) in
          (case convert_numeric env ''resale_price'' d1 of
             (Some e, d2) \<Rightarrow> (Some e, d2)
           | (None, d2) \<Rightarrow>
               (case convert_numeric env ''floor_area_sqm'' d2 of
                  (Some e, d3) \<Rightarrow> (Some e, d3)
                | (None, d3) \<Rightarrow>
                    let d4 = setitem d3 ''price_per_sqm''
                               (map (\<lambda>(p, a). cell_div p a)
                                  (zip (column d3 ''resale_price'') (column d3 ''floor_area_sqm'')));
                        d5 = lease_stage env current_year d4
                    in (case getitem d5 ''town'' of
                          Inl e \<Rightarrow> (Some e, d5)
                        | Inr town \<Rightarrow>
                            if \<not> str_accessor town then (Some AttributeError, d5)
                            else
                              let d6 = setitem d5 ''town''
                                         (map (str_strip_cell (unicode_data env)
                                               \<circ> str_title_cell (unicode_data env)) town);
                                  keep = map (\<lambda>(p, a). cell_gt p 10000 \<and> cell_gt a 20)
                                           (zip (column d6 ''resale_price'')
                                                (column d6 ''floor_area_sqm''))
                              in (None, select_rows d6 keep)))))"

text \<open>\<^verbatim>\<open>_clean_data\<close>: nothing to do when the table is absent or empty.\<close>

definition clean_data :: "pandas \<Rightarrow> int \<Rightarrow> processor \<Rightarrow> error option \<times> processor" where
  "clean_data env current_year p =
     (case df p of
        None \<Rightarrow> (None, p)
      | Some d \<Rightarrow>
          if empty d then (None, p)
          else (case clean_frame env current_year d of (e, d') \<Rightarrow> (e, p\<lparr>df := Some d'\<rparr>)))"

section \<open>The record fetcher\<close>

text \<open>
  A record of the remote source is a JSON object, a list of keys and values.
  \<^verbatim>\<open>pd.DataFrame(records)\<close> takes the keys in the order of their first appearance as
  columns and fills a key that a record lacks with the missing value.
\<close>

type_synonym raw_record = "(string \<times> cell) list"

definition unique :: "'a list \<Rightarrow> 'a list" where
  "unique xs = rev (remdups (rev xs))"

definition DataFrame :: "raw_record list \<Rightarrow> frame" where
  "DataFrame records =
     \<lparr>columns = unique (concat (map (map fst) records)),
      rows = map (\<lambda>rec c. case map_of rec c of None \<Rightarrow> NA | Some v \<Rightarrow> v) records\<rparr>"

text \<open>
  The \<^verbatim>\<open>total\<close> of a page is whatever JSON value the body carries there. The loop compares
  it with \<^verbatim>\<open>offset >= total_records\<close>: a number compares by value (and Python's parser
  reads \<^verbatim>\<open>Infinity\<close> and \<^verbatim>\<open>NaN\<close> as numbers), \<^verbatim>\<open>NaN\<close> compares false, a body without the key
  raises \<^verbatim>\<open>KeyError\<close> when the total is read, and a value that does not compare with an
  integer, \<^verbatim>\<open>null\<close> included, raises \<^verbatim>\<open>TypeError\<close> at the comparison.
\<close>

datatype json_total = Total num | Total_nan | Total_missing | Total_unordered

text \<open>
  What one request of \<^verbatim>\<open>_load_from_api\<close> can meet:
  \<^item> a transport failure (\<^verbatim>\<open>requests.RequestException\<close>, raised by \<^verbatim>\<open>requests.get\<close>,
    \<^verbatim>\<open>raise_for_status\<close> or \<^verbatim>\<open>response.json\<close>);
  \<^item> a body without the \<^verbatim>\<open>result/records\<close> envelope, the \<^verbatim>\<open>ValueError\<close> of the validation;
  \<^item> a body on which the validation or the reading of the records raises another
    exception (\<^verbatim>\<open>{"result": null}\<close> raises \<^verbatim>\<open>TypeError\<close> in \<^verbatim>\<open>'records' not in None\<close>);
  \<^item> a page with its \<^verbatim>\<open>total\<close> and its list of records.
  The remote source is the sequence of what the first, second, ... request meets.
\<close>

datatype response =
  Request_failed
  | Invalid_envelope
  | Malformed error
  | Page json_total "raw_record list"

text \<open>
  The \<^verbatim>\<open>except (requests.RequestException, ValueError)\<close> clause of the loop: an exception
  of these two classes ends the loop with the records so far when there are any and is
  raised again when there are none; an exception of another class is not caught.
\<close>

definition except_clause :: "error \<Rightarrow> raw_record list \<Rightarrow> nat \<Rightarrow> error + raw_record list" where
  "except_clause e all_records offset =
     (if e = RequestException \<or> e = ValueError
      then (if offset > 0 then Inr all_records else Inl e)
      else Inl e)"

text \<open>
  The \<^verbatim>\<open>while True\<close> loop of \<^verbatim>\<open>_load_from_api\<close>, with the number of the request and the loop's
  variables \<^verbatim>\<open>all_records\<close>, \<^verbatim>\<open>offset\<close> and \<^verbatim>\<open>total_records\<close>. The loop may run forever, so the
  result is optional; a result is the exception that leaves the loop or the records at
  the \<^verbatim>\<open>break\<close>. The total is read on the first page only.
\<close>

partial_function (option) fetch_loop ::
  "(nat \<Rightarrow> response) \<Rightarrow> nat \<Rightarrow> raw_record list \<Rightarrow> nat \<Rightarrow> json_total option
     \<Rightarrow> (error + raw_record list) option"
where
  "fetch_loop remote i all_records offset total_records =
     (case remote i of
        Request_failed \<Rightarrow> Some (except_clause RequestException all_records offset)
      | Invalid_envelope \<Rightarrow> Some (except_clause ValueError all_records offset)
      | Malformed e \<Rightarrow> Some (except_clause e all_records offset)
      | Page reported records \<Rightarrow>
          (case (case total_records of None \<Rightarrow> reported | Some t \<Rightarrow> t) of
             Total_missing \<Rightarrow> Some (Inl KeyError)
           | Total_unordered \<Rightarrow> Some (Inl TypeError)
           | Total_nan \<Rightarrow>
               fetch_loop remote (Suc i) (all_records @ records) (offset + length records)
                 (Some Total_nan)
           | Total t \<Rightarrow>
               if \<not> num_less (Fin (real (offset + length records))) t
               then Some (Inr (all_records @ records))
               else fetch_loop remote (Suc i) (all_records @ records) (offset + length records)
                      (Some (Total t))))"

text \<open>\<^verbatim>\<open>_load_from_api\<close>: the table is assigned only after the loop has ended without an exception.\<close>

definition load_from_api :: "(nat \<Rightarrow> response) \<Rightarrow> processor \<Rightarrow> (error option \<times> processor) option" where
  "load_from_api remote p =
     (case fetch_loop remote 0 [] 0 None of
        None \<Rightarrow> None
      | Some (Inl e) \<Rightarrow> Some (Some e, p)
      | Some (Inr all_records) \<Rightarrow> Some (None, p\<lparr>df := Some (DataFrame all_records)\<rparr>))"

section \<open>The cache store\<close>

text \<open>The files on disk: a path has a content or does not exist.\<close>

type_synonym files = "string \<Rightarrow> content option"

text \<open>The body of the \<^verbatim>\<open>try\<close> block of \<^verbatim>\<open>_load_from_cache\<close>.\<close>

definition load_from_cache_body :: "pandas \<Rightarrow> files \<Rightarrow> processor \<Rightarrow> error + processor" where
  "load_from_cache_body env fs p =
     (case fs (cache_file p) of
        Some content \<Rightarrow>
          if endswith (cache_file p) ''.parquet'' then
            (case read_parquet env content of Inl e \<Rightarrow> Inl e | Inr d \<Rightarrow> Inr (p\<lparr>df := Some d\<rparr>))
          else if endswith (cache_file p) ''.csv'' then
            (case read_csv env content of Inl e \<Rightarrow> Inl e | Inr d \<Rightarrow> Inr (p\<lparr>df := Some d\<rparr>))
          else Inl ValueError
      | None \<Rightarrow> Inr p)"

text \<open>
  \<^verbatim>\<open>_load_from_cache\<close>: the \<^verbatim>\<open>except Exception\<close> clause around the body logs the exception
  and returns.
\<close>

definition load_from_cache :: "pandas \<Rightarrow> files \<Rightarrow> processor \<Rightarrow> error option \<times> processor" where
  "load_from_cache env fs p =
     (case load_from_cache_body env fs p of
        Inl e \<Rightarrow> (None, p)
      | Inr p' \<Rightarrow> (None, p'))"

text \<open>
  \<^verbatim>\<open>_save_cache\<close>: nothing is written for an absent or empty table; a writer that fails
  is logged and leaves the files as they were.
\<close>

definition save_cache :: "pandas \<Rightarrow> processor \<Rightarrow> files \<Rightarrow> files" where
  "save_cache env p fs =
     (case df p of
        None \<Rightarrow> fs
      | Some d \<Rightarrow>
          if empty d then fs
          else (case (if endswith (cache_file p) ''.parquet'' then to_parquet env d
                      else to_csv env d) of
                  Inl e \<Rightarrow> fs
                | Inr content \<Rightarrow> fs(cache_file p \<mapsto> content)))"

section \<open>The two cache formats\<close>

text \<open>
  What \<^verbatim>\<open>DataFrame.to_parquet\<close>, \<^verbatim>\<open>pd.read_parquet\<close>, \<^verbatim>\<open>DataFrame.to_csv(index=False)\<close> and
  \<^verbatim>\<open>pd.read_csv\<close> do with their default arguments, after the documentation of pandas and
  with a parquet engine installed. The functions of this section can take the place of the
  four parameters of that name.
\<close>

definition cells_of :: "frame \<Rightarrow> cell list list" where
  "cells_of d = map (\<lambda>r. map r (columns d)) (rows d)"

definition table_of :: "string list \<Rightarrow> cell list list \<Rightarrow> frame" where
  "table_of labels cells =
     \<lparr>columns = labels,
      rows = map (\<lambda>vs c. case map_of (zip labels vs) c of None \<Rightarrow> NA | Some v \<Rightarrow> v) cells\<rparr>"

text \<open>
  A parquet column has one type: the writer refuses a column that mixes strings, numbers
  and timestamps (missing values apart), a table with a repeated column label, and a
  string with a surrogate code point, which has no UTF-8 encoding.
\<close>

definition homogeneous :: "cell list \<Rightarrow> bool" where
  "homogeneous col =
     (list_all (\<lambda>c. is_Str c \<or> c = NA) col
      \<or> list_all (\<lambda>c. is_Num c \<or> c = NA) col
      \<or> list_all (\<lambda>c. is_Date c \<or> c = NA) col)"

definition encodable :: "cell \<Rightarrow> bool" where
  "encodable c = (case c of Str s \<Rightarrow> list_all (\<lambda>x. x < 55296 \<or> 57343 < x) s | _ \<Rightarrow> True)"

definition write_parquet :: "frame \<Rightarrow> error + content" where
  "write_parquet d =
     (if \<not> distinct (columns d) then Inl ValueError
      else if \<not> list_all (\<lambda>c. homogeneous (column d c)) (columns d) then Inl TypeError
      else if \<not> list_all (list_all encodable) (cells_of d) then Inl ValueError
      else Inr (Parquet_file (columns d) (cells_of d)))"

definition parse_parquet :: "content \<Rightarrow> error + frame" where
  "parse_parquet content =
     (case content of
        Parquet_file labels cells \<Rightarrow> Inr (table_of labels cells)
      | _ \<Rightarrow> Inl ValueError)"

text \<open>
  The CSV writer puts the text of every value into its field: a string as it is, a number
  and a timestamp in the notation of pandas, a missing value as the empty field. A CSV file
  is modelled by its fields: the writer quotes a field where the format needs it, and the
  reader gets the fields that the writer wrote. This is taken for granted only of fields
  without control characters, on which the documentation of the two functions is silent.
\<close>

definition cell_text :: "pandas \<Rightarrow> cell \<Rightarrow> str" where
  "cell_text env c =
     (case c of
        Str s \<Rightarrow> s
      | Num x \<Rightarrow> num_text env x
      | Date t \<Rightarrow> datetime_text env t
      | NA \<Rightarrow> [])"

definition write_csv :: "pandas \<Rightarrow> frame \<Rightarrow> error + content" where
  "write_csv env d =
     (if \<not> list_all (list_all encodable) (cells_of d) then Inl ValueError
      else Inr (Csv_file (columns d) (map (map (cell_text env)) (cells_of d))))"

text \<open>
  The CSV reader infers the type of every column from its fields. The fields that stand
  for a missing value by default are listed in the documentation of \<^verbatim>\<open>read_csv\<close>. A column
  whose fields all are numbers or missing is a column of numbers; a column of the words
  for true and false, besides missing fields, is a column of booleans, whose values are
  left to a parameter; every other column is a column of strings. No column is read as
  timestamps: \<^verbatim>\<open>parse_dates\<close> is off by default.
\<close>

definition na_values :: "str list" where
  "na_values =
     map ascii ['''', ''#N/A'', ''#N/A N/A'', ''#NA'', ''-1.#IND'', ''-1.#QNAN'', ''-NaN'', ''-nan'',
       ''1.#IND'', ''1.#QNAN'', ''<NA>'', ''N/A'', ''NA'', ''NULL'', ''NaN'', ''None'', ''n/a'',
       ''nan'', ''null'']"

definition bool_words :: "str list" where
  "bool_words = map ascii [''True'', ''TRUE'', ''true'', ''False'', ''FALSE'', ''false'']"

definition read_column :: "pandas \<Rightarrow> str list \<Rightarrow> cell list" where
  "read_column env texts =
     (if list_all (\<lambda>f. f \<in> set na_values \<or> csv_to_num env f \<noteq> None) texts
      then map (\<lambda>f. if f \<in> set na_values then NA else float_cell (csv_to_num env f)) texts
      else if list_all (\<lambda>f. f \<in> set na_values \<or> f \<in> set bool_words) texts
      then map (\<lambda>f. if f \<in> set na_values then NA else csv_to_bool env f) texts
      else map (\<lambda>f. if f \<in> set na_values then NA else Str f) texts)"

text \<open>
  The reader takes the labels from the header line; it renames an empty or a repeated label
  in a way left to a parameter. A line with fewer fields than the header is filled with
  empty fields, a line with more fields is an error, and a line that is made of blanks only
  is skipped (\<^verbatim>\<open>skip_blank_lines\<close>); such a line can only come from a table with one column.
  The file is taken to be read in one piece (with \<^verbatim>\<open>low_memory\<close>, its default, pandas infers
  the types of a large file piece by piece). What the reader makes of a file with a control
  character in a field or a label, or with a header line of blanks, is left to a parameter.
\<close>

definition regular :: "str \<Rightarrow> bool" where
  "regular s = list_all (\<lambda>c. 32 \<le> c) s"

definition regular_header :: "string list \<Rightarrow> bool" where
  "regular_header labels =
     (list_all (\<lambda>label. regular (ascii label)) labels
      \<and> \<not> (length labels = 1 \<and> list_all (\<lambda>c. c = 32) (ascii (hd labels))))"

definition blank_line :: "str list \<Rightarrow> bool" where
  "blank_line l = (length l = 1 \<and> hd l \<noteq> [] \<and> list_all (\<lambda>c. c = 32) (hd l))"

definition parse_csv :: "pandas \<Rightarrow> content \<Rightarrow> error + frame" where
  "parse_csv env content =
     (case content of
        Csv_file labels lines \<Rightarrow>
          if \<not> regular_header labels \<or> \<not> list_all (list_all regular) lines
          then csv_irregular env content
          else if labels = [] \<or> list_ex (\<lambda>l. length labels < length l) lines then Inl ValueError
          else
            let kept = filter (\<lambda>l. \<not> blank_line l) lines;
                cols = map (\<lambda>i. read_column env
                                  (map (\<lambda>l. if i < length l then l ! i else []) kept))
                         [0..<length labels]
            in Inr (table_of
                      (if distinct labels \<and> [] \<notin> set labels then labels
                       else csv_labels env labels)
                      (map (\<lambda>j. map (\<lambda>col. col ! j) cols) [0..<length kept]))
      | _ \<Rightarrow> Inl ValueError)"

text \<open>
  A value that the CSV reader may give for a field with the text of a saved value: the
  missing value, the number or the boolean that the text stands for, or the text itself as
  a string.
\<close>

definition read_as :: "pandas \<Rightarrow> cell \<Rightarrow> cell \<Rightarrow> bool" where
  "read_as env saved loaded =
     (loaded \<in> set [NA, Str (cell_text env saved),
                     float_cell (csv_to_num env (cell_text env saved)),
                     csv_to_bool env (cell_text env saved)])"

text \<open>pandas with the two formats as documented.\<close>

definition documented :: "pandas \<Rightarrow> pandas" where
  "documented env =
     env\<lparr>read_parquet := parse_parquet,
         read_csv := parse_csv env,
         to_parquet := write_parquet,
         to_csv := write_csv env\<rparr>"

section \<open>The fallback orchestrator\<close>

definition sample :: "raw_record list" where
  "sample =
     [[(''month'', Str (ascii ''2023-01'')), (''town'', Str (ascii ''Ang Mo Kio'')),
       (''resale_price'', Num (Fin 400000)), (''floor_area_sqm'', Num (Fin 80)),
       (''flat_type'', Str (ascii ''4 ROOM'')), (''lease_commence_date'', Num (Fin 1985))],
      [(''month'', Str (ascii ''2023-02'')), (''town'', Str (ascii ''Bedok'')),
       (''resale_price'', Num (Fin 420000)), (''floor_area_sqm'', Num (Fin 85)),
       (''flat_type'', Str (ascii ''5 ROOM'')), (''lease_commence_date'', Num (Fin 1990))]]"

definition generate_sample_data :: "pandas \<Rightarrow> int \<Rightarrow> processor \<Rightarrow> error option \<times> processor" where
  "generate_sample_data env current_year p =
     clean_data env current_year (p\<lparr>df := Some (DataFrame sample)\<rparr>)"

text \<open>\<^verbatim>\<open>_fallback_procedure\<close>: the sample is generated when the cache load raises.\<close>

definition fallback_procedure :: "pandas \<Rightarrow> int \<Rightarrow> files \<Rightarrow> processor \<Rightarrow> error option \<times> processor" where
  "fallback_procedure env current_year fs p =
     (case load_from_cache env fs p of
        (None, p') \<Rightarrow> (None, p')
      | (Some e, p') \<Rightarrow> generate_sample_data env current_year p')"

text \<open>
  \<^verbatim>\<open>__init__\<close>: the constructor in the world made of the remote source, the calendar year
  and the files. It gives the exception that leaves the constructor, if any, the processor
  and the files, or nothing when the fetch loop never ends.
\<close>

definition init ::
  "pandas \<Rightarrow> (nat \<Rightarrow> response) \<Rightarrow> int \<Rightarrow> files \<Rightarrow> bool \<Rightarrow> string
     \<Rightarrow> (error option \<times> processor \<times> files) option" where
  "init env remote current_year fs use_api cache =
     (let p0 = \<lparr>cache_file = cache, df = None\<rparr> in
      if use_api then
        (case load_from_api remote p0 of
           None \<Rightarrow> None
         | Some (Some e, p1) \<Rightarrow>
             (case fallback_procedure env current_year fs p1 of (r, p') \<Rightarrow> Some (r, p', fs))
         | Some (None, p1) \<Rightarrow>
             (case clean_data env current_year p1 of
                (Some e, p2) \<Rightarrow>
                  (case fallback_procedure env current_year fs p2 of (r, p') \<Rightarrow> Some (r, p', fs))
              | (None, p2) \<Rightarrow> Some (None, p2, save_cache env p2 fs)))
      else
        (case load_from_cache env fs p0 of
           (Some e, p1) \<Rightarrow>
             (case fallback_procedure env current_year fs p1 of (r, p') \<Rightarrow> Some (r, p', fs))
         | (None, p1) \<Rightarrow> Some (None, p1, fs)))"

section \<open>The query layer\<close>

text \<open>
  Python's \<^verbatim>\<open>sorted\<close> compares the values with \<^verbatim>\<open><\<close>: strings by code point, numbers by
  value, timestamps by date, and values of two kinds raise \<^verbatim>\<open>TypeError\<close>. On values that
  \<^verbatim>\<open><\<close> orders totally every stable sort gives the same list, here an insertion sort. A
  missing value is not ordered (\<^verbatim>\<open>NaN\<close> compares false with everything, \<^verbatim>\<open>None\<close> raises): what
  \<^verbatim>\<open>sorted\<close> makes of a list of several values that holds one is left to a parameter.
\<close>

fun str_less :: "str \<Rightarrow> str \<Rightarrow> bool" where
  "str_less [] [] = False"
| "str_less [] (y # ys) = True"
| "str_less (x # xs) [] = False"
| "str_less (x # xs) (y # ys) = (x < y \<or> (x = y \<and> str_less xs ys))"

fun ts_less :: "timestamp \<Rightarrow> timestamp \<Rightarrow> bool" where
  "ts_less (Timestamp y m d) (Timestamp y' m' d') =
     (y < y' \<or> (y = y' \<and> (m < m' \<or> (m = m' \<and> d < d'))))"

fun cell_lt :: "cell \<Rightarrow> cell \<Rightarrow> error + bool" where
  "cell_lt (Str a) (Str b) = Inr (str_less a b)"
| "cell_lt (Num a) (Num b) = Inr (num_less a b)"
| "cell_lt (Date a) (Date b) = Inr (ts_less a b)"
| "cell_lt _ _ = Inl TypeError"

fun py_insert :: "('a \<Rightarrow> 'a \<Rightarrow> error + bool) \<Rightarrow> 'a \<Rightarrow> 'a list \<Rightarrow> error + 'a list" where
  "py_insert lt x [] = Inr [x]"
| "py_insert lt x (y # ys) =
     (case lt y x of
        Inl e \<Rightarrow> Inl e
      | Inr False \<Rightarrow> Inr (x # y # ys)
      | Inr True \<Rightarrow> (case py_insert lt x ys of Inl e \<Rightarrow> Inl e | Inr zs \<Rightarrow> Inr (y # zs)))"

fun insertion_sort :: "('a \<Rightarrow> 'a \<Rightarrow> error + bool) \<Rightarrow> 'a list \<Rightarrow> error + 'a list" where
  "insertion_sort lt [] = Inr []"
| "insertion_sort lt (x # xs) =
     (case insertion_sort lt xs of Inl e \<Rightarrow> Inl e | Inr ys \<Rightarrow> py_insert lt x ys)"

definition py_sorted :: "pandas \<Rightarrow> cell list \<Rightarrow> error + cell list" where
  "py_sorted env xs =
     (if NA \<in> set xs \<and> 1 < length xs then sorted_with_nan env xs
      else insertion_sort cell_lt xs)"

text \<open>\<^verbatim>\<open>get_towns\<close> and \<^verbatim>\<open>get_flat_types\<close>: the sorted distinct values, or \<^verbatim>\<open>[]\<close> without a table.\<close>

definition get_towns :: "pandas \<Rightarrow> processor \<Rightarrow> error + cell list" where
  "get_towns env p =
     (case df p of
        None \<Rightarrow> Inr []
      | Some d \<Rightarrow>
          (case getitem d ''town'' of Inl e \<Rightarrow> Inl e | Inr col \<Rightarrow> py_sorted env (unique col)))"

definition get_flat_types :: "pandas \<Rightarrow> processor \<Rightarrow> error + cell list" where
  "get_flat_types env p =
     (case df p of
        None \<Rightarrow> Inr []
      | Some d \<Rightarrow>
          (case getitem d ''flat_type'' of Inl e \<Rightarrow> Inl e | Inr col \<Rightarrow> py_sorted env (unique col)))"

text \<open>
  \<^verbatim>\<open>groupby(keys).agg({column: f, ...}).reset_index()\<close>: the rows with a missing key are left
  out, the groups come in the order of their keys, and every listed column is reduced by
  \<^verbatim>\<open>f\<close> over its numeric entries; an entry that is not a number makes the reduction raise.
  pandas orders the values of a key column with numbers before strings.
\<close>

fun group_lt :: "cell \<Rightarrow> cell \<Rightarrow> error + bool" where
  "group_lt (Num a) (Str b) = Inr True"
| "group_lt (Str a) (Num b) = Inr False"
| "group_lt a b = cell_lt a b"

fun key_lt :: "cell list \<Rightarrow> cell list \<Rightarrow> error + bool" where
  "key_lt [] [] = Inr False"
| "key_lt [] (b # bs) = Inr True"
| "key_lt (a # as) [] = Inr False"
| "key_lt (a # as) (b # bs) = (if a = b then key_lt as bs else group_lt a b)"

fun collect :: "(error + 'a) list \<Rightarrow> error + 'a list" where
  "collect [] = Inr []"
| "collect (x # xs) =
     (case x of
        Inl e \<Rightarrow> Inl e
      | Inr v \<Rightarrow> (case collect xs of Inl e \<Rightarrow> Inl e | Inr vs \<Rightarrow> Inr (v # vs)))"

fun numeric_entry :: "cell \<Rightarrow> error + num option" where
  "numeric_entry (Num x) = Inr (Some x)"
| "numeric_entry NA = Inr None"
| "numeric_entry _ = Inl TypeError"

fun num_sum :: "num list \<Rightarrow> num option" where
  "num_sum [] = Some (Fin 0)"
| "num_sum (x # xs) = (case num_sum xs of None \<Rightarrow> None | Some s \<Rightarrow> num_add x s)"

definition mean :: "num option list \<Rightarrow> num option" where
  "mean xs =
     (case dropna xs of
        [] \<Rightarrow> None
      | y # ys \<Rightarrow>
          (case num_sum (y # ys) of
             None \<Rightarrow> None
           | Some s \<Rightarrow> num_div s (Fin (real (length (y # ys))))))"

definition aggregate :: "(num option list \<Rightarrow> num option) \<Rightarrow> cell list \<Rightarrow> error + cell" where
  "aggregate f xs =
     (case collect (map numeric_entry xs) of Inl e \<Rightarrow> Inl e | Inr ys \<Rightarrow> Inr (float_cell (f ys)))"

definition groupby_agg ::
  "frame \<Rightarrow> string list \<Rightarrow> string list \<Rightarrow> (num option list \<Rightarrow> num option) \<Rightarrow> error + frame" where
  "groupby_agg d keys cols f =
     (if \<not> set (keys @ cols) \<subseteq> set (columns d) then Inl KeyError
      else
        let key_of = (\<lambda>r. map r keys);
            present = filter (\<lambda>r. NA \<notin> set (key_of r)) (rows d)
        in (case insertion_sort key_lt (unique (map key_of present)) of
              Inl e \<Rightarrow> Inl e
            | Inr ks \<Rightarrow>
                (case collect (map (\<lambda>k. collect (map (\<lambda>c. aggregate f
                         (map (\<lambda>r. r c) (filter (\<lambda>r. key_of r = k) present))) cols)) ks) of
                   Inl e \<Rightarrow> Inl e
                 | Inr vals \<Rightarrow>
                     Inr \<lparr>columns = keys @ cols,
                          rows = map (\<lambda>(k, vs) c.
                                   case map_of (zip (keys @ cols) (k @ vs)) c of
                                     None \<Rightarrow> NA | Some v \<Rightarrow> v) (zip ks vals)\<rparr>)))"

text \<open>\<^verbatim>\<open>get_town_data\<close>: the monthly means of one town, or an empty table without a table.\<close>

definition get_town_data :: "pandas \<Rightarrow> processor \<Rightarrow> str \<Rightarrow> error + frame" where
  "get_town_data env p town =
     (case df p of
        None \<Rightarrow> Inr (DataFrame [])
      | Some d \<Rightarrow>
          (case getitem d ''town'' of
             Inl e \<Rightarrow> Inl e
           | Inr col \<Rightarrow>
               let town_data =
                     select_rows d (map (\<lambda>c. c = Str (str_title (unicode_data env) town)) col)
               in groupby_agg town_data [''month'']
                    [''resale_price'', ''price_per_sqm'', ''lease_remaining''] mean))"

definition get_full_data :: "processor \<Rightarrow> error + frame" where
  "get_full_data p = (case df p of None \<Rightarrow> Inr (DataFrame []) | Some d \<Rightarrow> Inr d)"

text \<open>
  The route \<^verbatim>\<open>/heatmap\<close> of \<^verbatim>\<open>api/app.py\<close>. Its guard \<^verbatim>\<open>if not processor\<close> tests the truth
  value of the processor object; the class defines neither \<^verbatim>\<open>__bool__\<close> nor \<^verbatim>\<open>__len__\<close>, so
  every instance is true. The route then calls \<^verbatim>\<open>groupby\<close> on \<^verbatim>\<open>processor.df\<close>; on \<^verbatim>\<open>None\<close>
  the attribute lookup raises \<^verbatim>\<open>AttributeError\<close>.
\<close>

definition truth_value :: "processor \<Rightarrow> bool" where
  "truth_value p = True"

definition get_heatmap_data :: "processor \<Rightarrow> error + frame" where
  "get_heatmap_data p =
     (if \<not> truth_value p then Inr (DataFrame [])
      else (case df p of
              None \<Rightarrow> Inl AttributeError
            | Some d \<Rightarrow> groupby_agg d [''town'', ''flat_type''] [''price_per_sqm''] median))"

text \<open>
  The operations on a constructed processor: the four query methods, the heatmap route and
  \<^verbatim>\<open>_save_cache\<close>. None of them assigns \<^verbatim>\<open>self.df\<close> or changes the table in place (the
  queries work on selections and copies), so each gives back the processor it was given;
  only \<^verbatim>\<open>_save_cache\<close> changes the files.
\<close>

datatype call = Get_towns | Get_flat_types | Get_town_data str | Get_full_data
  | Get_heatmap_data | Save_cache

datatype answer = Values "error + cell list" | Table "error + frame" | Done

fun perform :: "pandas \<Rightarrow> call \<Rightarrow> processor \<times> files \<Rightarrow> answer \<times> processor \<times> files" where
  "perform env Get_towns (p, fs) = (Values (get_towns env p), p, fs)"
| "perform env Get_flat_types (p, fs) = (Values (get_flat_types env p), p, fs)"
| "perform env (Get_town_data town) (p, fs) = (Table (get_town_data env p town), p, fs)"
| "perform env Get_full_data (p, fs) = (Table (get_full_data p), p, fs)"
| "perform env Get_heatmap_data (p, fs) = (Table (get_heatmap_data p), p, fs)"
| "perform env Save_cache (p, fs) = (Done, p, save_cache env p fs)"

fun perform_all :: "pandas \<Rightarrow> call list \<Rightarrow> processor \<times> files \<Rightarrow> processor \<times> files" where
  "perform_all env [] s = s"
| "perform_all env (c # cs) s = perform_all env cs (snd (perform env c s))"

section \<open>The pipeline row by row\<close>

text \<open>
  Every stage of \<^verbatim>\<open>_clean_data\<close> works on one row at a time once the two medians and the
  raw date columns are known. The functions below describe what the stages do to a single
  row; the lemma \<open>clean_frame_cases\<close> proves that the column-wise pipeline above computes
  exactly this. \<open>derive_row\<close> is the row before the town stage, \<open>clean_row\<close> the row after it.
\<close>

definition fill_cell :: "pandas \<Rightarrow> num option \<Rightarrow> cell \<Rightarrow> cell" where
  "fill_cell env m c = float_cell (case to_numeric env c of None \<Rightarrow> m | Some x \<Rightarrow> Some x)"

definition derive_row ::
  "pandas \<Rightarrow> int \<Rightarrow> bool \<Rightarrow> num option \<Rightarrow> num option \<Rightarrow> cell list \<Rightarrow> cell list
     \<Rightarrow> (string \<Rightarrow> cell) \<Rightarrow> string \<Rightarrow> cell" where
  "derive_row env y has_lease m_price m_area months leases r =
     (let price = fill_cell env m_price (r ''resale_price'');
          area = fill_cell env m_area (r ''floor_area_sqm'');
          r4 = r(''month'' := to_datetime_entry env months (r ''month''),
                 ''resale_price'' := price,
                 ''floor_area_sqm'' := area,
                 ''price_per_sqm'' := cell_div price area)
      in if has_lease
         then r4(''lease_commence_date'' := to_datetime_entry env leases (r ''lease_commence_date''),
                 ''lease_remaining'' :=
                    lease_remaining_of y (to_datetime_entry env leases (r ''lease_commence_date'')))
         else r4(''lease_remaining'' := NA))"

definition clean_row ::
  "pandas \<Rightarrow> int \<Rightarrow> bool \<Rightarrow> num option \<Rightarrow> num option \<Rightarrow> cell list \<Rightarrow> cell list
     \<Rightarrow> (string \<Rightarrow> cell) \<Rightarrow> string \<Rightarrow> cell" where
  "clean_row env y has_lease m_price m_area months leases r =
     (derive_row env y has_lease m_price m_area months leases r)
       (''town'' := str_strip_cell (unicode_data env) (str_title_cell (unicode_data env) (r ''town'')))"

definition append_new :: "string \<Rightarrow> string list \<Rightarrow> string list" where
  "append_new c cs = (if c \<in> set cs then cs else cs @ [c])"

definition keep_row :: "(string \<Rightarrow> cell) \<Rightarrow> bool" where
  "keep_row r = (cell_gt (r ''resale_price'') 10000 \<and> cell_gt (r ''floor_area_sqm'') 20)"

text \<open>The table before the town stage, and the table that the pipeline returns, in closed form.\<close>

definition derived :: "pandas \<Rightarrow> int \<Rightarrow> frame \<Rightarrow> frame" where
  "derived env y d =
     d\<lparr>columns := append_new ''lease_remaining'' (append_new ''price_per_sqm'' (columns d)),
       rows := map (derive_row env y (''lease_commence_date'' \<in> set (columns d))
                      (median (map (to_numeric env) (column d ''resale_price'')))
                      (median (map (to_numeric env) (column d ''floor_area_sqm'')))
                      (column d ''month'') (column d ''lease_commence_date''))
                 (rows d)\<rparr>"

definition cleaned :: "pandas \<Rightarrow> int \<Rightarrow> frame \<Rightarrow> frame" where
  "cleaned env y d =
     d\<lparr>columns := append_new ''lease_remaining'' (append_new ''price_per_sqm'' (columns d)),
       rows := filter keep_row
                 (map (clean_row env y (''lease_commence_date'' \<in> set (columns d))
                         (median (map (to_numeric env) (column d ''resale_price'')))
                         (median (map (to_numeric env) (column d ''floor_area_sqm'')))
                         (column d ''month'') (column d ''lease_commence_date''))
                    (rows d))\<rparr>"

text \<open>The town names of a column that are made of code points below 128.\<close>

definition ascii_town :: "cell \<Rightarrow> bool" where
  "ascii_town c = (case c of Str s \<Rightarrow> list_all (\<lambda>x. x < 128) s | _ \<Rightarrow> True)"

section \<open>The fetch loop request by request\<close>

text \<open>
  The records that the requests before the \<open>k\<close>-th have brought when each of them met a page,
  and the test that the loop makes after a page: the count of records is still below the
  total. A total that is \<^verbatim>\<open>NaN\<close> is never reached.
\<close>

fun records_of :: "response \<Rightarrow> raw_record list" where
  "records_of (Page reported records) = records"
| "records_of _ = []"

definition fetched :: "(nat \<Rightarrow> response) \<Rightarrow> nat \<Rightarrow> raw_record list" where
  "fetched remote k = concat (map (\<lambda>j. records_of (remote j)) [0..<k])"

definition below_total :: "json_total \<Rightarrow> nat \<Rightarrow> bool" where
  "below_total reported n =
     (case reported of
        Total t \<Rightarrow> num_less (Fin (real n)) t
      | Total_nan \<Rightarrow> True
      | Total_missing \<Rightarrow> False
      | Total_unordered \<Rightarrow> False)"

text \<open>
  Request \<open>k\<close> makes the loop go on when it meets a page and the records up to this page
  stay below the total that the first page reported.
\<close>

definition goes_on :: "(nat \<Rightarrow> response) \<Rightarrow> nat \<Rightarrow> bool" where
  "goes_on remote k =
     (case remote k of
        Page reported records \<Rightarrow>
          (case remote 0 of
             Page first_total first_records \<Rightarrow>
               below_total first_total (length (fetched remote (Suc k)))
           | _ \<Rightarrow> False)
      | _ \<Rightarrow> False)"

text \<open>What the loop leaves when request \<open>k\<close> is the first that does not make it go on.\<close>

definition stops_with :: "(nat \<Rightarrow> response) \<Rightarrow> nat \<Rightarrow> error + raw_record list" where
  "stops_with remote k =
     (case remote k of
        Request_failed \<Rightarrow>
          except_clause RequestException (fetched remote k) (length (fetched remote k))
      | Invalid_envelope \<Rightarrow>
          except_clause ValueError (fetched remote k) (length (fetched remote k))
      | Malformed e \<Rightarrow> except_clause e (fetched remote k) (length (fetched remote k))
      | Page reported records \<Rightarrow>
          (case remote 0 of
             Page Total_missing first_records \<Rightarrow> Inl KeyError
           | Page Total_unordered first_records \<Rightarrow> Inl TypeError
           | _ \<Rightarrow> Inr (fetched remote (Suc k))))"

text \<open>The loop's variable \<^verbatim>\<open>total_records\<close> before request \<open>k\<close>.\<close>

definition total_before :: "(nat \<Rightarrow> response) \<Rightarrow> nat \<Rightarrow> json_total option" where
  "total_before remote k =
     (if k = 0 then None
      else (case remote 0 of Page first_total first_records \<Rightarrow> Some first_total | _ \<Rightarrow> None))"

section \<open>Example inputs\<close>

text \<open>
  A small stand-in for pandas, used to run the model on concrete inputs: numbers and years
  are strings of decimal digits, a timestamp is written as year, month and day, a number
  as the digits of its integer part, and the two cache formats are the documented ones. Of
  the Unicode database it has the entries of the capital I with a dot above (U+0130) and
  of the combining dot above (U+0307), and takes every other code point from 128 on as
  caseless.
\<close>

definition digits_from :: "nat \<Rightarrow> str \<Rightarrow> nat option" where
  "digits_from acc s =
     foldl (\<lambda>a c. case a of None \<Rightarrow> None
                  | Some v \<Rightarrow> if 48 \<le> c \<and> c \<le> 57 then Some (10 * v + (c - 48)) else None)
       (Some acc) s"

definition decimal :: "str \<Rightarrow> nat option" where
  "decimal s = (if s = [] then None else digits_from 0 s)"

fun decimal_text :: "nat \<Rightarrow> nat \<Rightarrow> str" where
  "decimal_text 0 n = []"
| "decimal_text (Suc width) n = decimal_text width (n div 10) @ [48 + n mod 10]"

definition dotted_i :: unicode where
  "dotted_i =
     \<lparr>lower_full = (\<lambda>c. if c = 304 then [105, 775] else [c]),
      title_full = (\<lambda>c. [c]),
      cased = (\<lambda>c. c = 304),
      case_ignorable = (\<lambda>c. c = 775),
      whitespace = (\<lambda>c. False)\<rparr>"

definition plain_reader :: pandas where
  "plain_reader =
     \<lparr>str_to_num = (\<lambda>s. case decimal s of None \<Rightarrow> None | Some n \<Rightarrow> Some (Fin (real n))),
      str_to_datetime =
        (\<lambda>col s. case decimal s of None \<Rightarrow> None | Some n \<Rightarrow> Some (Timestamp (int n) 1 1)),
      num_to_datetime = (\<lambda>col x. None),
      unicode_data = dotted_i,
      sorted_with_nan = (\<lambda>xs. Inl TypeError),
      read_parquet = (\<lambda>content. Inl OSError),
      read_csv = (\<lambda>content. Inl OSError),
      to_parquet = (\<lambda>d. Inl OSError),
      to_csv = (\<lambda>d. Inl OSError),
      num_text =
        (\<lambda>x. case x of
               Fin r \<Rightarrow> decimal_text 6 (nat \<lfloor>r\<rfloor>) @ ascii ''.0''
             | PosInf \<Rightarrow> ascii ''inf''
             | NegInf \<Rightarrow> ascii ''-inf''),
      datetime_text =
        (\<lambda>t. decimal_text 4 (nat (ts_year t)) @ ascii ''-'' @ decimal_text 2 (ts_month t)
               @ ascii ''-'' @ decimal_text 2 (ts_day t)),
      csv_to_num = (\<lambda>s. case decimal s of None \<Rightarrow> None | Some n \<Rightarrow> Some (Fin (real n))),
      csv_to_bool = (\<lambda>s. NA),
      csv_labels = (\<lambda>labels. labels),
      csv_irregular = (\<lambda>content. Inl ValueError)\<rparr>"

definition plain_pandas :: pandas where
  "plain_pandas = documented plain_reader"

definition three_records :: "raw_record list" where
  "three_records =
     [[(''month'', Str (ascii ''2023'')), (''town'', Str (ascii '' bedok '')),
       (''resale_price'', Str (ascii ''bad'')), (''floor_area_sqm'', Num (Fin 80)),
       (''lease_commence_date'', Str (ascii ''1985''))],
      [(''month'', Str (ascii ''2023'')), (''town'', Str (ascii ''ang mo kio'')),
       (''resale_price'', Str (ascii ''400000'')), (''floor_area_sqm'', Str (ascii ''90'')),
       (''lease_commence_date'', Str (ascii ''1990''))],
      [(''month'', Str (ascii ''2024'')), (''town'', Str (ascii ''BEDOK'')),
       (''resale_price'', Num (Fin 420000)), (''floor_area_sqm'', Num (Fin 100)),
       (''lease_commence_date'', Str (ascii ''2000''))]]"

definition unpriced_records :: "raw_record list" where
  "unpriced_records =
     [[(''month'', Str (ascii ''2023'')), (''town'', Str (ascii ''Bedok'')),
       (''resale_price'', Str (ascii ''bad'')), (''floor_area_sqm'', Num (Fin 80))],
      [(''month'', Str (ascii ''2023'')), (''town'', Str (ascii ''Bedok'')),
       (''resale_price'', Str (ascii ''n/a'')), (''floor_area_sqm'', Num (Fin 90))]]"

text \<open>Two records whose towns are numbers, and one record without a month.\<close>

definition numbered_town_records :: "raw_record list" where
  "numbered_town_records =
     [[(''month'', Str (ascii ''2023'')), (''town'', Num (Fin 1)),
       (''resale_price'', Str (ascii ''bad'')), (''floor_area_sqm'', Num (Fin 80))],
      [(''month'', Str (ascii ''2023'')), (''town'', Num (Fin 2)),
       (''resale_price'', Str (ascii ''n/a'')), (''floor_area_sqm'', Num (Fin 90))]]"

definition monthless_records :: "raw_record list" where
  "monthless_records =
     [[(''town'', Str (ascii ''Bedok'')), (''resale_price'', Num (Fin 5)),
       (''floor_area_sqm'', Num (Fin 80))]]"

definition monthless_page :: "nat \<Rightarrow> response" where
  "monthless_page i = Page (Total (Fin 1)) monthless_records"

text \<open>One record whose town is \<^verbatim>\<open>a\<close>, the capital I with a dot above, \<^verbatim>\<open>b\<close>.\<close>

definition dotted_records :: "raw_record list" where
  "dotted_records =
     [[(''month'', Str (ascii ''2023'')), (''town'', Str [97, 304, 98]),
       (''resale_price'', Num (Fin 400000)), (''floor_area_sqm'', Num (Fin 80))]]"

definition page_then_failure :: "nat \<Rightarrow> response" where
  "page_then_failure i = (if i = 0 then Page (Total (Fin 5000)) three_records else Request_failed)"

definition empty_page_then_failure :: "nat \<Rightarrow> response" where
  "empty_page_then_failure i = (if i = 0 then Page (Total (Fin 5)) [] else Request_failed)"

definition empty_pages :: "nat \<Rightarrow> response" where
  "empty_pages i = Page (Total (Fin 5)) []"

definition endless_pages :: "nat \<Rightarrow> response" where
  "endless_pages i = Page (Total PosInf) three_records"

definition steady_pages :: "nat \<Rightarrow> response" where
  "steady_pages i = Page (Total (Fin 5)) three_records"

definition no_files :: files where
  "no_files = (\<lambda>path. None)"

definition fresh_processor :: "string \<Rightarrow> processor" where
  "fresh_processor path = \<lparr>cache_file = path, df = None\<rparr>"


section \<open>Lemmas on the table operations\<close>

lemma setitem_zip_map:
  "map (\<lambda>(r, v). r(c := v)) (zip rs (map g rs)) = map (\<lambda>r. r(c := g r)) rs"
  by (induction rs) auto

lemma setitem_column:
  "setitem d c (map f (column d c')) =
     d\<lparr>columns := (if c \<in> set (columns d) then columns d else columns d @ [c]),
       rows := map (\<lambda>r. r(c := f (r c'))) (rows d)\<rparr>"
proof -
  have "map f (column d c') = map (\<lambda>r. f (r c')) (rows d)"
    by (simp add: column_def)
  then show ?thesis
    by (simp add: setitem_def setitem_zip_map)
qed

lemma setitem_rows_map:
  "setitem d c (map g (rows d)) =
     d\<lparr>columns := (if c \<in> set (columns d) then columns d else columns d @ [c]),
       rows := map (\<lambda>r. r(c := g r)) (rows d)\<rparr>"
  by (simp add: setitem_def setitem_zip_map)

lemma convert_numeric_rows:
  assumes "c \<in> set (columns d)"
  shows "convert_numeric env c d =
           (None, d\<lparr>rows := map (\<lambda>r. r(c := fill_cell env (median (map (to_numeric env) (column d c))) (r c))) (rows d)\<rparr>)"
proof -
  have "map float_cell (fillna (map (to_numeric env) (column d c)) m)
          = map (\<lambda>r. fill_cell env m (r c)) (rows d)" for m
    by (simp add: fillna_def column_def fill_cell_def)
  then show ?thesis
    using assms by (simp add: convert_numeric_def getitem_def Let_def setitem_rows_map)
qed

lemma convert_numeric_missing:
  "c \<notin> set (columns d) \<Longrightarrow> convert_numeric env c d = (Some KeyError, d)"
  by (simp add: convert_numeric_def getitem_def)

lemma select_rows_filter:
  "map fst (filter snd (zip rs (map P rs))) = filter P rs"
  by (induction rs) auto

lemma zip_columns:
  "zip (column d a) (column d b) = map (\<lambda>r. (r a, r b)) (rows d)"
  by (simp add: column_def zip_map_map zip_same_conv_map)

lemma price_per_sqm_rows:
  "setitem d c (map (\<lambda>(p, a). cell_div p a) (zip (column d x) (column d y))) =
     d\<lparr>columns := (if c \<in> set (columns d) then columns d else columns d @ [c]),
       rows := map (\<lambda>r. r(c := cell_div (r x) (r y))) (rows d)\<rparr>"
proof -
  have "map (\<lambda>(p, a). cell_div p a) (zip (column d x) (column d y))
          = map (\<lambda>r. cell_div (r x) (r y)) (rows d)"
    by (simp add: zip_columns)
  then show ?thesis by (simp add: setitem_rows_map)
qed

lemma select_rows_mask:
  "select_rows d (map (\<lambda>(p, a). cell_gt p k \<and> cell_gt a l) (zip (column d x) (column d y)))
     = d\<lparr>rows := filter (\<lambda>r. cell_gt (r x) k \<and> cell_gt (r y) l) (rows d)\<rparr>"
proof -
  have "map (\<lambda>(p, a). cell_gt p k \<and> cell_gt a l) (zip (column d x) (column d y))
          = map (\<lambda>r. cell_gt (r x) k \<and> cell_gt (r y) l) (rows d)"
    by (simp add: zip_columns)
  then show ?thesis by (simp add: select_rows_def select_rows_filter)
qed

lemma lease_stage_rows:
  "lease_stage env y d =
     (if ''lease_commence_date'' \<in> set (columns d)
      then d\<lparr>columns := (if ''lease_remaining'' \<in> set (columns d) then columns d else columns d @ [''lease_remaining'']),
             rows := map (\<lambda>r. r(''lease_commence_date'' :=
                                    to_datetime_entry env (column d ''lease_commence_date'') (r ''lease_commence_date''),
                                 ''lease_remaining'' :=
                                    lease_remaining_of y
                                      (to_datetime_entry env (column d ''lease_commence_date'') (r ''lease_commence_date''))))
                       (rows d)\<rparr>
      else d\<lparr>columns := (if ''lease_remaining'' \<in> set (columns d) then columns d else columns d @ [''lease_remaining'']),
             rows := map (\<lambda>r. r(''lease_remaining'' := NA)) (rows d)\<rparr>)"
proof (cases "''lease_commence_date'' \<in> set (columns d)")
  case True
  then show ?thesis
    by (simp add: lease_stage_def getitem_def Let_def to_datetime_def setitem_column column_def
        setitem_def setitem_zip_map comp_def)
next
  case False
  have "replicate (length (rows d)) NA = map (\<lambda>r. NA) (rows d)"
    by (simp add: map_replicate_const)
  with False show ?thesis
    by (simp add: lease_stage_def getitem_def setitem_rows_map)
qed

lemma columns_setitem: "columns (setitem d c vs) = append_new c (columns d)"
  by (simp add: setitem_def append_new_def)

lemma rows_setitem_column:
  "rows (setitem d c (map f (column d c'))) = map (\<lambda>r. r(c := f (r c'))) (rows d)"
  by (simp add: setitem_column)

lemma append_new_mem: "c \<in> set cs \<Longrightarrow> append_new c cs = cs"
  by (simp add: append_new_def)

lemma set_append_new: "set (append_new c cs) = insert c (set cs)"
  by (auto simp: append_new_def)

lemma column_map: "rows d' = map h (rows d) \<Longrightarrow> column d' c = map (\<lambda>r. h r c) (rows d)"
  by (simp add: column_def)

lemma convert_numeric_ok:
  assumes "c \<in> set (columns d)"
  shows "fst (convert_numeric env c d) = None"
    and "columns (snd (convert_numeric env c d)) = columns d"
    and "rows (snd (convert_numeric env c d)) =
           map (\<lambda>r. r(c := fill_cell env (median (map (to_numeric env) (column d c))) (r c))) (rows d)"
  using assms by (simp_all add: convert_numeric_rows)

text \<open>
  The pipeline on a table that has the three columns read before the town stage: it raises
  at the town stage, leaving the table with the derived columns and all its rows, or it
  returns the cleaned table.
\<close>

lemma clean_frame_cases:
  assumes "set [''month'', ''resale_price'', ''floor_area_sqm''] \<subseteq> set (columns d)"
  shows "clean_frame env y d =
     (if ''town'' \<notin> set (columns d) then (Some KeyError, derived env y d)
      else if \<not> str_accessor (column d ''town'') then (Some AttributeError, derived env y d)
      else (None, cleaned env y d))"
proof -
  from assms have cm: "''month'' \<in> set (columns d)" and cp: "''resale_price'' \<in> set (columns d)"
    and ca: "''floor_area_sqm'' \<in> set (columns d)"
    by simp_all
  define u where "u = unicode_data env"
  define mp where "mp = median (map (to_numeric env) (column d ''resale_price''))"
  define ma where "ma = median (map (to_numeric env) (column d ''floor_area_sqm''))"
  define ms where "ms = column d ''month''"
  define ls where "ls = column d ''lease_commence_date''"
  define d1 where "d1 = setitem d ''month'' (to_datetime env (column d ''month''))"
  define h1 where "h1 = (\<lambda>r::string \<Rightarrow> cell. r(''month'' := to_datetime_entry env ms (r ''month'')))"
  have r1: "rows d1 = map h1 (rows d)" and c1: "columns d1 = columns d"
    using cm by (simp_all add: d1_def h1_def ms_def to_datetime_def rows_setitem_column
        columns_setitem append_new_mem)
  have col1p: "column d1 ''resale_price'' = column d ''resale_price''"
    by (simp add: column_def r1 h1_def)
  define d2 where "d2 = snd (convert_numeric env ''resale_price'' d1)"
  define h2 where "h2 = (\<lambda>r::string \<Rightarrow> cell. (h1 r)(''resale_price'' := fill_cell env mp (r ''resale_price'')))"
  have e2: "convert_numeric env ''resale_price'' d1 = (None, d2)"
    using convert_numeric_ok(1)[of "''resale_price''" d1 env] cp c1
    by (simp add: d2_def prod_eq_iff)
  have r2: "rows d2 = map h2 (rows d)" and c2: "columns d2 = columns d"
    using cp c1 by (simp_all add: d2_def convert_numeric_ok r1 col1p mp_def h2_def h1_def)
  have col2a: "column d2 ''floor_area_sqm'' = column d ''floor_area_sqm''"
    by (simp add: column_def r2 h2_def h1_def)
  define d3 where "d3 = snd (convert_numeric env ''floor_area_sqm'' d2)"
  define h3 where "h3 = (\<lambda>r::string \<Rightarrow> cell. (h2 r)(''floor_area_sqm'' := fill_cell env ma (r ''floor_area_sqm'')))"
  have e3: "convert_numeric env ''floor_area_sqm'' d2 = (None, d3)"
    using convert_numeric_ok(1)[of "''floor_area_sqm''" d2 env] ca c2
    by (simp add: d3_def prod_eq_iff)
  have r3: "rows d3 = map h3 (rows d)" and c3: "columns d3 = columns d"
    using ca c2 by (simp_all add: d3_def convert_numeric_ok r2 col2a ma_def h3_def h2_def h1_def)
  define d4 where "d4 = setitem d3 ''price_per_sqm''
      (map (\<lambda>(p, a). cell_div p a) (zip (column d3 ''resale_price'') (column d3 ''floor_area_sqm'')))"
  define h4 where "h4 = (\<lambda>r::string \<Rightarrow> cell. (h3 r)(''price_per_sqm'' :=
      cell_div (fill_cell env mp (r ''resale_price'')) (fill_cell env ma (r ''floor_area_sqm''))))"
  have r4: "rows d4 = map h4 (rows d)"
    by (simp add: d4_def price_per_sqm_rows r3 h4_def h3_def h2_def h1_def comp_def)
  have c4: "columns d4 = append_new ''price_per_sqm'' (columns d)"
    by (simp add: d4_def columns_setitem c3)
  have col4l: "column d4 ''lease_commence_date'' = ls"
    by (simp add: column_def r4 h4_def h3_def h2_def h1_def ls_def)
  define d5 where "d5 = lease_stage env y d4"
  define h5 where "h5 = (\<lambda>r::string \<Rightarrow> cell.
      if ''lease_commence_date'' \<in> set (columns d)
      then (h4 r)(''lease_commence_date'' := to_datetime_entry env ls (r ''lease_commence_date''),
                  ''lease_remaining'' :=
                     lease_remaining_of y (to_datetime_entry env ls (r ''lease_commence_date'')))
      else (h4 r)(''lease_remaining'' := NA))"
  have l4: "''lease_commence_date'' \<in> set (columns d4) \<longleftrightarrow> ''lease_commence_date'' \<in> set (columns d)"
    by (simp add: c4 set_append_new)
  have r5: "rows d5 = map h5 (rows d)"
    by (simp add: d5_def lease_stage_rows l4 col4l r4 h5_def h4_def h3_def h2_def h1_def comp_def)
  have c5: "columns d5 = append_new ''lease_remaining'' (append_new ''price_per_sqm'' (columns d))"
    by (simp add: d5_def lease_stage_rows l4 c4 append_new_def)
  have h5_eq: "h5 = derive_row env y (''lease_commence_date'' \<in> set (columns d)) mp ma ms ls"
    by (rule ext) (simp add: h5_def h4_def h3_def h2_def h1_def derive_row_def Let_def)
  have d5_eq: "d5 = derived env y d"
  proof -
    have "d5 = d5\<lparr>columns := columns d5, rows := rows d5\<rparr>" by simp
    also have "\<dots> = d\<lparr>columns := columns d5, rows := rows d5\<rparr>"
      by (simp add: d5_def lease_stage_rows d4_def price_per_sqm_rows d3_def d2_def
          convert_numeric_rows cp ca c1 c2 d1_def to_datetime_def setitem_column)
    finally show ?thesis
      by (simp add: derived_def c5 r5 h5_eq mp_def ma_def ms_def ls_def)
  qed
  have t5: "''town'' \<in> set (columns d5) \<longleftrightarrow> ''town'' \<in> set (columns d)"
    by (simp add: c5 set_append_new)
  have col5t: "column d5 ''town'' = column d ''town''"
    by (simp add: column_def r5 h5_def h4_def h3_def h2_def h1_def)
  have before: "clean_frame env y d =
     (case getitem d5 ''town'' of
        Inl e \<Rightarrow> (Some e, d5)
      | Inr town \<Rightarrow>
          if \<not> str_accessor town then (Some AttributeError, d5)
          else
            let d6 = setitem d5 ''town'' (map (str_strip_cell u \<circ> str_title_cell u) town);
                keep = map (\<lambda>(p, a). cell_gt p 10000 \<and> cell_gt a 20)
                         (zip (column d6 ''resale_price'') (column d6 ''floor_area_sqm''))
            in (None, select_rows d6 keep))"
    unfolding clean_frame_def
    by (simp only: getitem_def[of d] cm if_True sum.case Let_def d1_def[symmetric] e2 e3
        prod.case option.case d4_def[symmetric] d5_def[symmetric] u_def[symmetric])
  show ?thesis
  proof (cases "''town'' \<in> set (columns d)")
    case False
    then have "clean_frame env y d = (Some KeyError, d5)"
      by (simp add: before getitem_def t5)
    with False show ?thesis
      by (simp add: d5_eq)
  next
    case True
    show ?thesis
    proof (cases "str_accessor (column d ''town'')")
      case False
      with True have "clean_frame env y d = (Some AttributeError, d5)"
        by (simp add: before getitem_def t5 col5t)
      with True False show ?thesis
        by (simp add: d5_eq)
    next
      case acc: True
      define d6 where "d6 = setitem d5 ''town'' (map (str_strip_cell u \<circ> str_title_cell u) (column d5 ''town''))"
      define h6 where "h6 = (\<lambda>r::string \<Rightarrow> cell. (h5 r)(''town'' := str_strip_cell u (str_title_cell u (r ''town''))))"
      have r6: "rows d6 = map h6 (rows d)"
        by (simp add: d6_def rows_setitem_column r5 h6_def h5_def h4_def h3_def h2_def h1_def comp_def)
      have c6: "columns d6 = append_new ''lease_remaining'' (append_new ''price_per_sqm'' (columns d))"
        using True t5 by (simp add: d6_def columns_setitem c5 append_new_mem)
      have h6_eq: "h6 = clean_row env y (''lease_commence_date'' \<in> set (columns d)) mp ma ms ls"
        by (rule ext) (simp add: h6_def h5_eq clean_row_def u_def)
      have keep: "(\<lambda>r. cell_gt (r ''resale_price'') 10000 \<and> cell_gt (r ''floor_area_sqm'') 20) = keep_row"
        by (rule ext) (simp add: keep_row_def)
      have d6_d: "d6\<lparr>rows := filter keep_row (rows d6)\<rparr> = d\<lparr>columns := columns d6, rows := filter keep_row (rows d6)\<rparr>"
        by (simp add: d6_def setitem_def d5_eq derived_def)
      have "clean_frame env y d =
          (None, select_rows d6 (map (\<lambda>(p, a). cell_gt p 10000 \<and> cell_gt a 20)
                   (zip (column d6 ''resale_price'') (column d6 ''floor_area_sqm''))))"
        using True acc
        by (simp add: before getitem_def t5 col5t Let_def d6_def)
      also have "\<dots> = (None, d6\<lparr>rows := filter keep_row (rows d6)\<rparr>)"
        by (simp only: select_rows_mask keep)
      also have "d6\<lparr>rows := filter keep_row (rows d6)\<rparr> = cleaned env y d"
        unfolding d6_d by (simp add: cleaned_def c6 r6 h6_eq mp_def ma_def ms_def ls_def)
      finally show ?thesis
        using True acc by simp
    qed
  qed
qed

lemma clean_frame_without_columns:
  assumes "\<not> set [''month'', ''resale_price'', ''floor_area_sqm''] \<subseteq> set (columns d)"
  shows "fst (clean_frame env y d) = Some KeyError"
proof (cases "''month'' \<in> set (columns d)")
  case False
  then show ?thesis by (simp add: clean_frame_def getitem_def)
next
  case True
  define d1 where "d1 = setitem d ''month'' (to_datetime env (column d ''month''))"
  have c1: "columns d1 = columns d"
    using True by (simp add: d1_def columns_setitem append_new_mem)
  show ?thesis
  proof (cases "''resale_price'' \<in> set (columns d)")
    case False
    then have "convert_numeric env ''resale_price'' d1 = (Some KeyError, d1)"
      by (simp add: convert_numeric_missing c1)
    then show ?thesis
      using True by (simp add: clean_frame_def getitem_def Let_def d1_def[symmetric])
  next
    case price: True
    define d2 where "d2 = snd (convert_numeric env ''resale_price'' d1)"
    have e2: "convert_numeric env ''resale_price'' d1 = (None, d2)"
      using convert_numeric_ok(1)[of "''resale_price''" d1 env] price c1
      by (simp add: d2_def prod_eq_iff)
    have c2: "columns d2 = columns d"
      using price c1 by (simp add: d2_def convert_numeric_ok)
    from assms True price have "''floor_area_sqm'' \<notin> set (columns d2)"
      by (simp add: c2)
    then have "convert_numeric env ''floor_area_sqm'' d2 = (Some KeyError, d2)"
      by (rule convert_numeric_missing)
    then show ?thesis
      using True by (simp add: clean_frame_def getitem_def Let_def d1_def[symmetric] e2)
  qed
qed

lemma clean_frame_returns_iff:
  "fst (clean_frame env y d) = None \<longleftrightarrow>
     set [''month'', ''resale_price'', ''floor_area_sqm'', ''town''] \<subseteq> set (columns d)
     \<and> str_accessor (column d ''town'')"
proof (cases "set [''month'', ''resale_price'', ''floor_area_sqm''] \<subseteq> set (columns d)")
  case True
  then show ?thesis by (simp add: clean_frame_cases)
next
  case False
  with clean_frame_without_columns[OF False, of env y] show ?thesis by auto
qed

lemma clean_frame_rows:
  assumes "set [''month'', ''resale_price'', ''floor_area_sqm'', ''town''] \<subseteq> set (columns d)"
    and "str_accessor (column d ''town'')"
  shows "clean_frame env y d = (None, cleaned env y d)"
  using assms by (simp add: clean_frame_cases)

lemma clean_frame_returned:
  assumes "clean_frame env y d = (None, d')"
  shows "d' = cleaned env y d"
    and "set [''month'', ''resale_price'', ''floor_area_sqm'', ''town''] \<subseteq> set (columns d)"
    and "str_accessor (column d ''town'')"
proof -
  from assms have "fst (clean_frame env y d) = None" by simp
  then show c: "set [''month'', ''resale_price'', ''floor_area_sqm'', ''town''] \<subseteq> set (columns d)"
    and a: "str_accessor (column d ''town'')"
    by (simp_all add: clean_frame_returns_iff)
  from assms clean_frame_rows[OF c a, of env y] show "d' = cleaned env y d" by simp
qed

lemma columns_cleaned:
  "columns (cleaned env y d) = append_new ''lease_remaining'' (append_new ''price_per_sqm'' (columns d))"
  by (simp add: cleaned_def)

lemma rows_cleaned:
  "rows (cleaned env y d) =
     filter keep_row
       (map (clean_row env y (''lease_commence_date'' \<in> set (columns d))
               (median (map (to_numeric env) (column d ''resale_price'')))
               (median (map (to_numeric env) (column d ''floor_area_sqm'')))
               (column d ''month'') (column d ''lease_commence_date''))
          (rows d))"
  by (simp add: cleaned_def)

lemma is_Str_accessor: "list_ex is_Str col \<Longrightarrow> str_accessor col"
  by (simp add: str_accessor_def)


section \<open>The orchestrator without network and without cache\<close>

text \<open>
  \<^verbatim>\<open>_load_from_cache\<close> never raises, so the \<^verbatim>\<open>except\<close> branch of \<^verbatim>\<open>_fallback_procedure\<close>,
  the only caller of \<^verbatim>\<open>_generate_sample_data\<close>, is never taken.
\<close>

lemma load_from_cache_never_raises: "fst (load_from_cache env fs p) = None"
  by (simp add: load_from_cache_def split: sum.splits)

lemma fallback_procedure_is_load_from_cache:
  "fallback_procedure env current_year fs p = load_from_cache env fs p"
  by (simp add: fallback_procedure_def load_from_cache_def split: sum.splits)

text \<open>
  Claim C1. A processor constructed with \<^verbatim>\<open>use_api=False\<close> and a cache path at which no file
  exists should end with the two cleaned sample rows as its table. The constructor of the
  source returns with the table absent instead: the load logs that no cache file was found
  and returns normally, no exception reaches \<^verbatim>\<open>__init__\<close>, and the sample is never generated.
\<close>

theorem init_offline_without_cache_leaves_table_absent:
  "init env remote current_year (fs(path := None)) False path
     = Some (None, \<lparr>cache_file = path, df = None\<rparr>, fs(path := None))"
  by (simp add: init_def load_from_cache_def load_from_cache_body_def)

section \<open>Queries on an absent table\<close>

text \<open>
  Claim C2. Every query operation should give an empty result on an absent table and never
  raise. The four query methods of the processor do; the heatmap route raises
  \<^verbatim>\<open>AttributeError\<close>, because its guard tests the processor object and not the table.
\<close>

theorem heatmap_raises_on_absent_table:
  "get_towns env \<lparr>cache_file = path, df = None\<rparr> = Inr []
   \<and> get_flat_types env \<lparr>cache_file = path, df = None\<rparr> = Inr []
   \<and> get_town_data env \<lparr>cache_file = path, df = None\<rparr> town = Inr \<lparr>columns = [], rows = []\<rparr>
   \<and> get_full_data \<lparr>cache_file = path, df = None\<rparr> = Inr \<lparr>columns = [], rows = []\<rparr>
   \<and> get_heatmap_data \<lparr>cache_file = path, df = None\<rparr> = Inl AttributeError"
  by (simp add: get_towns_def get_flat_types_def get_town_data_def get_full_data_def
      get_heatmap_data_def truth_value_def DataFrame_def unique_def)

section \<open>Loading from a path with an unknown extension\<close>

text \<open>
  Claim C3. A load from an existing file whose path ends neither in \<^verbatim>\<open>.parquet\<close> nor in
  \<^verbatim>\<open>.csv\<close> should fail with the unsupported-format error, and the error should reach the
  caller of the load. In the source the \<^verbatim>\<open>ValueError\<close> is raised inside the \<^verbatim>\<open>try\<close> block of
  \<^verbatim>\<open>_load_from_cache\<close> and caught by the \<^verbatim>\<open>except Exception\<close> clause of the same method: the
  method returns normally with the table as it was, so its callers see no error; neither
  \<^verbatim>\<open>_fallback_procedure\<close> nor the constructor goes on to the sample.
\<close>

theorem unsupported_format_error_is_swallowed:
  assumes "\<not> endswith path ''.parquet''" and "\<not> endswith path ''.csv''"
    and "fs path = Some content"
  shows "load_from_cache_body env fs \<lparr>cache_file = path, df = table\<rparr> = Inl ValueError
       \<and> load_from_cache env fs \<lparr>cache_file = path, df = table\<rparr>
           = (None, \<lparr>cache_file = path, df = table\<rparr>)
       \<and> fallback_procedure env current_year fs \<lparr>cache_file = path, df = table\<rparr>
           = (None, \<lparr>cache_file = path, df = table\<rparr>)
       \<and> init env remote current_year fs False path
           = Some (None, \<lparr>cache_file = path, df = None\<rparr>, fs)"
  using assms
  by (simp add: init_def fallback_procedure_def load_from_cache_def load_from_cache_body_def)

theorem unsupported_format_error_is_swallowed_witness:
  "\<not> endswith ''hdb_data.txt'' ''.parquet''
   \<and> \<not> endswith ''hdb_data.txt'' ''.csv''
   \<and> (no_files(''hdb_data.txt'' \<mapsto> Other_file)) ''hdb_data.txt'' = Some Other_file
   \<and> load_from_cache_body plain_pandas (no_files(''hdb_data.txt'' \<mapsto> Other_file))
        \<lparr>cache_file = ''hdb_data.txt'', df = None\<rparr> = Inl ValueError
   \<and> load_from_cache plain_pandas (no_files(''hdb_data.txt'' \<mapsto> Other_file))
        \<lparr>cache_file = ''hdb_data.txt'', df = None\<rparr>
        = (None, \<lparr>cache_file = ''hdb_data.txt'', df = None\<rparr>)
   \<and> init plain_pandas empty_pages 2025 (no_files(''hdb_data.txt'' \<mapsto> Other_file)) False ''hdb_data.txt''
        = Some (None, \<lparr>cache_file = ''hdb_data.txt'', df = None\<rparr>,
                no_files(''hdb_data.txt'' \<mapsto> Other_file))"
  using unsupported_format_error_is_swallowed[of "''hdb_data.txt''"
      "no_files(''hdb_data.txt'' \<mapsto> Other_file)" Other_file plain_pandas None 2025 empty_pages]
  by (simp add: endswith_def)

section \<open>The example table, cleaned\<close>

lemma title_strip_bedok: "str_strip u (str_title u (ascii '' bedok '')) = ascii ''Bedok''"
  by (simp add: ascii_def str_strip_def str_title_def to_title_def to_lower_def lower_at_def
      is_cased_def is_space_def)

lemma title_strip_examples:
  "str_strip u (str_title u (ascii ''ang mo kio'')) = ascii ''Ang Mo Kio''"
  "str_strip u (str_title u (ascii ''BEDOK'')) = ascii ''Bedok''"
  "str_strip u (str_title u (ascii ''Bedok'')) = ascii ''Bedok''"
  "str_strip u (str_title u (ascii ''Ang Mo Kio'')) = ascii ''Ang Mo Kio''"
  by (simp_all add: ascii_def str_strip_def str_title_def to_title_def to_lower_def lower_at_def
      is_cased_def is_space_def)

lemma decimal_examples:
  "decimal (ascii ''bad'') = None" "decimal (ascii ''n/a'') = None"
  "decimal (ascii ''400000'') = Some 400000" "decimal (ascii ''90'') = Some 90"
  "decimal (ascii ''1985'') = Some 1985" "decimal (ascii ''1990'') = Some 1990"
  "decimal (ascii ''2000'') = Some 2000" "decimal (ascii ''2023'') = Some 2023"
  "decimal (ascii ''2024'') = Some 2024"
  by (simp_all add: decimal_def digits_from_def ascii_def)

lemma plain_pandas_parsers:
  "str_to_num plain_pandas s = (case decimal s of None \<Rightarrow> None | Some n \<Rightarrow> Some (Fin (real n)))"
  "str_to_datetime plain_pandas col s =
     (case decimal s of None \<Rightarrow> None | Some n \<Rightarrow> Some (Timestamp (int n) 1 1))"
  "unicode_data plain_pandas = dotted_i"
  by (simp_all add: plain_pandas_def documented_def plain_reader_def)

lemma three_records_columns:
  "columns (DataFrame three_records) =
     [''month'', ''town'', ''resale_price'', ''floor_area_sqm'', ''lease_commence_date'']"
  by (simp add: DataFrame_def three_records_def unique_def)

lemma three_records_length: "length three_records = 3"
  by (simp add: three_records_def)

lemma three_records_not_empty: "\<not> empty (DataFrame three_records)"
  by (simp add: empty_def three_records_columns) (simp add: DataFrame_def three_records_def)

lemma three_records_towns: "list_ex is_Str (column (DataFrame three_records) ''town'')"
  by (simp add: DataFrame_def three_records_def column_def)

lemma three_records_clean_ok:
  "clean_data env y \<lparr>cache_file = path, df = Some (DataFrame three_records)\<rparr>
     = (None, \<lparr>cache_file = path, df = Some (cleaned env y (DataFrame three_records))\<rparr>)"
  by (simp add: clean_data_def three_records_not_empty clean_frame_rows three_records_columns
      is_Str_accessor[OF three_records_towns])

lemma three_records_prices:
  "map (to_numeric plain_pandas) (column (DataFrame three_records) ''resale_price'')
     = [None, Some (Fin 400000), Some (Fin 420000)]"
  by (simp add: DataFrame_def three_records_def column_def plain_pandas_parsers decimal_examples)

lemma three_records_areas:
  "map (to_numeric plain_pandas) (column (DataFrame three_records) ''floor_area_sqm'')
     = [Some (Fin 80), Some (Fin 90), Some (Fin 100)]"
  by (simp add: DataFrame_def three_records_def column_def plain_pandas_parsers decimal_examples)

lemma three_records_median: "median [None, Some (Fin 400000), Some (Fin 420000)] = Some (Fin 410000)"
  by (simp add: median_def dropna_def num_sort_def num_mean2_def)

lemma three_records_cleaned:
  "map (\<lambda>r. (r ''month'', r ''town'', r ''resale_price'', r ''floor_area_sqm'', r ''lease_remaining''))
     (rows (cleaned plain_pandas y (DataFrame three_records)))
     = [(Date (Timestamp 2023 1 1), Str (ascii ''Bedok''), Num (Fin 410000), Num (Fin 80),
         Num (Fin (real_of_int (99 - (y - 1985))))),
        (Date (Timestamp 2023 1 1), Str (ascii ''Ang Mo Kio''), Num (Fin 400000), Num (Fin 90),
         Num (Fin (real_of_int (99 - (y - 1990))))),
        (Date (Timestamp 2024 1 1), Str (ascii ''Bedok''), Num (Fin 420000), Num (Fin 100),
         Num (Fin (real_of_int (99 - (y - 2000)))))]"
  unfolding rows_cleaned three_records_prices three_records_areas three_records_median three_records_columns
  by (simp add: DataFrame_def three_records_def clean_row_def derive_row_def keep_row_def
      fill_cell_def Let_def plain_pandas_parsers decimal_examples title_strip_bedok
      title_strip_examples)

lemma three_records_cleaned_length:
  "length (rows (cleaned plain_pandas y (DataFrame three_records))) = 3"
  using arg_cong[OF three_records_cleaned[of y], of length] by simp

section \<open>The outlier filter as an invariant\<close>

lemma perform_processor: "fst (snd (perform env c (p, fs))) = p"
  by (cases c) simp_all

lemma perform_all_processor: "fst (perform_all env calls (p, fs)) = p"
proof (induction calls arbitrary: fs)
  case Nil
  then show ?case by simp
next
  case (Cons c calls)
  obtain a fs' where "perform env c (p, fs) = (a, p, fs')"
    using perform_processor[of env c p fs] by (cases "perform env c (p, fs)") auto
  then show ?case using Cons.IH by simp
qed

lemma monthless_page_loaded:
  "load_from_api monthless_page p = Some (None, p\<lparr>df := Some (DataFrame monthless_records)\<rparr>)"
proof -
  have "fetch_loop monthless_page 0 [] 0 None = Some (Inr monthless_records)"
    by (subst fetch_loop.simps) (simp add: monthless_page_def monthless_records_def)
  then show ?thesis by (simp add: load_from_api_def)
qed

lemma monthless_records_kept_raw:
  "clean_data env y \<lparr>cache_file = path, df = Some (DataFrame monthless_records)\<rparr>
     = (Some KeyError, \<lparr>cache_file = path, df = Some (DataFrame monthless_records)\<rparr>)"
  by (simp add: clean_data_def clean_frame_def getitem_def empty_def DataFrame_def
      monthless_records_def unique_def)

text \<open>
  Claim C4, as stated: for every raw table, every row of the table that the cleaning
  pipeline leaves passes the outlier filter. The filter is the last step of
  \<^verbatim>\<open>_clean_data\<close>; when a step before it raises, the table stays as changed so far, with all
  its rows. A page whose one record has no \<^verbatim>\<open>month\<close> and a price of 5 makes the first step
  raise \<^verbatim>\<open>KeyError\<close>; the constructor catches the exception, finds no cache file, and returns
  without an exception and with the unfiltered row as its table.
\<close>

theorem unfiltered_table_counterexample:
  "clean_data plain_pandas 2025 \<lparr>cache_file = ''hdb_data.parquet'', df = Some (DataFrame monthless_records)\<rparr>
     = (Some KeyError, \<lparr>cache_file = ''hdb_data.parquet'', df = Some (DataFrame monthless_records)\<rparr>)
   \<and> init plain_pandas monthless_page 2025 no_files True ''hdb_data.parquet''
     = Some (None, \<lparr>cache_file = ''hdb_data.parquet'', df = Some (DataFrame monthless_records)\<rparr>, no_files)
   \<and> map (\<lambda>r. r ''resale_price'') (rows (DataFrame monthless_records)) = [Num (Fin 5)]
   \<and> \<not> cell_gt (Num (Fin 5)) 10000"
proof -
  have "init plain_pandas monthless_page 2025 no_files True ''hdb_data.parquet''
     = Some (None, \<lparr>cache_file = ''hdb_data.parquet'', df = Some (DataFrame monthless_records)\<rparr>, no_files)"
    by (simp add: init_def monthless_page_loaded monthless_records_kept_raw
        fallback_procedure_is_load_from_cache load_from_cache_def load_from_cache_body_def
        no_files_def)
  moreover have "map (\<lambda>r. r ''resale_price'') (rows (DataFrame monthless_records)) = [Num (Fin 5)]"
    by (simp add: DataFrame_def monthless_records_def)
  ultimately show ?thesis
    by (simp add: monthless_records_kept_raw)
qed

lemma clean_data_returned:
  assumes "clean_data env y \<lparr>cache_file = path, df = Some d\<rparr> = (None, p')"
  shows "p' = \<lparr>cache_file = path, df = Some (if empty d then d else cleaned env y d)\<rparr>"
proof (cases "empty d")
  case True
  with assms show ?thesis by (simp add: clean_data_def)
next
  case False
  obtain e d' where cf: "clean_frame env y d = (e, d')"
    by (cases "clean_frame env y d")
  with assms False have "e = None" and p': "p' = \<lparr>cache_file = path, df = Some d'\<rparr>"
    by (simp_all add: clean_data_def)
  with cf clean_frame_returned(1)[of env y d d'] False show ?thesis by simp
qed

lemma cleaned_rows_kept: "r \<in> set (rows (cleaned env y d)) \<Longrightarrow> keep_row r"
  by (simp add: rows_cleaned)

text \<open>
  Claim C4, amended: whenever \<^verbatim>\<open>_clean_data\<close> returns without an exception, the table it
  leaves has no columns at all (an empty table is left as it is) or every one of its rows
  has a resale price above 10000 and a floor area above 20 (an infinite value counts as
  above), and the operations on the constructed processor (the queries, the heatmap route,
  the cache save) keep the table as it is, whatever their number and order.
\<close>

theorem cleaned_rows_pass_outlier_filter:
  assumes "clean_data env y \<lparr>cache_file = path, df = Some d\<rparr> = (None, p')"
  shows "\<exists>d'. df (fst (perform_all env calls (p', fs))) = Some d'
           \<and> (columns d' = []
                \<or> (\<forall>r \<in> set (rows d').
                      cell_gt (r ''resale_price'') 10000 \<and> cell_gt (r ''floor_area_sqm'') 20))"
proof (cases "empty d")
  case True
  with clean_data_returned[OF assms] have "p' = \<lparr>cache_file = path, df = Some d\<rparr>"
    by simp
  with True show ?thesis
    by (auto simp: perform_all_processor empty_def)
next
  case False
  with clean_data_returned[OF assms]
  have p': "p' = \<lparr>cache_file = path, df = Some (cleaned env y d)\<rparr>"
    by simp
  have "\<forall>r \<in> set (rows (cleaned env y d)). keep_row r"
    using cleaned_rows_kept by blast
  then show ?thesis
    by (simp add: perform_all_processor p' keep_row_def)
qed

theorem cleaned_rows_pass_outlier_filter_witness:
  "clean_data plain_pandas 2024 \<lparr>cache_file = ''hdb_data.parquet'', df = Some (DataFrame three_records)\<rparr>
     = (None, \<lparr>cache_file = ''hdb_data.parquet'',
               df = Some (cleaned plain_pandas 2024 (DataFrame three_records))\<rparr>)
   \<and> (\<exists>d'. df (fst (perform_all plain_pandas [Get_towns, Save_cache, Get_heatmap_data]
                 (\<lparr>cache_file = ''hdb_data.parquet'',
                   df = Some (cleaned plain_pandas 2024 (DataFrame three_records))\<rparr>, no_files)))
              = Some d'
          \<and> columns d' \<noteq> []
          \<and> length (rows d') = 3
          \<and> list_all (\<lambda>r. cell_gt (r ''resale_price'') 10000 \<and> cell_gt (r ''floor_area_sqm'') 20)
               (rows d'))"
proof -
  let ?d = "cleaned plain_pandas 2024 (DataFrame three_records)"
  let ?p = "\<lparr>cache_file = ''hdb_data.parquet'', df = Some ?d\<rparr>"
  have c: "columns ?d \<noteq> []"
    by (simp add: columns_cleaned three_records_columns append_new_def)
  obtain d' where 1: "df (fst (perform_all plain_pandas [Get_towns, Save_cache, Get_heatmap_data]
                 (?p, no_files))) = Some d'"
    and 2: "columns d' = [] \<or> (\<forall>r \<in> set (rows d').
                      cell_gt (r ''resale_price'') 10000 \<and> cell_gt (r ''floor_area_sqm'') 20)"
    using cleaned_rows_pass_outlier_filter[
        OF three_records_clean_ok[of plain_pandas 2024 "''hdb_data.parquet''"],
        where calls = "[Get_towns, Save_cache, Get_heatmap_data]" and fs = no_files]
    by blast
  from 1 have d': "d' = ?d"
    by (simp add: perform_all_processor)
  have 3: "length (rows ?d) = 3"
    by (rule three_records_cleaned_length)
  from 2 c have 4: "list_all (\<lambda>r. cell_gt (r ''resale_price'') 10000 \<and> cell_gt (r ''floor_area_sqm'') 20)
               (rows ?d)"
    unfolding d' by (simp only: list_all_iff) blast
  show ?thesis
    by (intro conjI exI[of _ ?d] three_records_clean_ok c 3 4) (simp add: perform_all_processor)
qed


section \<open>Filling invalid numbers with the median\<close>

lemma dropna_filter: "dropna (filter (\<lambda>x. x \<noteq> None) xs) = dropna xs"
  by (induction xs) (auto simp: dropna_def)

lemma median_numeric_only: "median (filter (\<lambda>x. x \<noteq> None) xs) = median xs"
  by (simp only: median_def dropna_filter)

lemma clean_data_cleaned:
  assumes "set [''month'', ''resale_price'', ''floor_area_sqm'', ''town''] \<subseteq> set (columns d)"
    and "list_ex is_Str (column d ''town'')"
  shows "clean_data env y \<lparr>cache_file = path, df = Some d\<rparr>
           = (None, \<lparr>cache_file = path, df = Some (cleaned env y d)\<rparr>)"
proof -
  from assms(2) have "rows d \<noteq> []"
    by (auto simp: column_def)
  with assms(1) have "\<not> empty d"
    by (auto simp: empty_def)
  then show ?thesis
    using assms by (simp add: clean_data_def clean_frame_rows is_Str_accessor)
qed

lemma clean_row_price:
  "clean_row env y l mp ma ms ls r ''resale_price'' = fill_cell env mp (r ''resale_price'')"
  by (simp add: clean_row_def derive_row_def Let_def)

lemma clean_row_area:
  "clean_row env y l mp ma ms ls r ''floor_area_sqm'' = fill_cell env ma (r ''floor_area_sqm'')"
  by (simp add: clean_row_def derive_row_def Let_def)

lemma clean_row_town:
  "clean_row env y l mp ma ms ls r ''town''
     = str_strip_cell (unicode_data env) (str_title_cell (unicode_data env) (r ''town''))"
  by (simp add: clean_row_def)

lemma fill_cell_case:
  "fill_cell env m c = (case to_numeric env c of None \<Rightarrow> float_cell m | Some x \<Rightarrow> Num x)"
  by (simp add: fill_cell_def split: option.splits)

text \<open>
  Claim C5. On a raw table that has the columns the pipeline reads and whose town column
  holds at least one string (without one the \<^verbatim>\<open>.str\<close> accessor raises), cleaning succeeds and
  its rows are the rows of the raw table, each transformed on its own and then filtered. In
  a transformed row, a price or an area that fails the numeric coercion is the median of
  its column, taken over the numeric entries of the whole raw column (so before any row is
  filtered out); a value that coerces is kept; the town is title-cased and stripped. In
  particular a row with price \<^verbatim>\<open>"bad"\<close>, area 80 and town \<^verbatim>\<open>" bedok "\<close> gets the median price,
  keeps its area and has the town \<^verbatim>\<open>"Bedok"\<close>.
\<close>

theorem invalid_numbers_take_the_median:
  assumes "set [''month'', ''resale_price'', ''floor_area_sqm'', ''town''] \<subseteq> set (columns d)"
    and "list_ex is_Str (column d ''town'')"
  shows "\<exists>f d'.
      clean_data env y \<lparr>cache_file = path, df = Some d\<rparr> = (None, \<lparr>cache_file = path, df = Some d'\<rparr>)
    \<and> rows d' = filter (\<lambda>r. cell_gt (r ''resale_price'') 10000 \<and> cell_gt (r ''floor_area_sqm'') 20)
                  (map f (rows d))
    \<and> (\<forall>r. f r ''resale_price'' =
             (case to_numeric env (r ''resale_price'') of
                None \<Rightarrow> float_cell (median (map (to_numeric env) (column d ''resale_price'')))
              | Some x \<Rightarrow> Num x))
    \<and> (\<forall>r. f r ''floor_area_sqm'' =
             (case to_numeric env (r ''floor_area_sqm'') of
                None \<Rightarrow> float_cell (median (map (to_numeric env) (column d ''floor_area_sqm'')))
              | Some x \<Rightarrow> Num x))
    \<and> (\<forall>r. f r ''town'' = str_strip_cell (unicode_data env) (str_title_cell (unicode_data env) (r ''town'')))
    \<and> median (map (to_numeric env) (column d ''resale_price''))
        = median (filter (\<lambda>x. x \<noteq> None) (map (to_numeric env) (column d ''resale_price'')))
    \<and> median (map (to_numeric env) (column d ''floor_area_sqm''))
        = median (filter (\<lambda>x. x \<noteq> None) (map (to_numeric env) (column d ''floor_area_sqm'')))
    \<and> (\<forall>r. str_to_num env (ascii ''bad'') = None \<and> r ''resale_price'' = Str (ascii ''bad'')
              \<and> r ''floor_area_sqm'' = Num (Fin 80) \<and> r ''town'' = Str (ascii '' bedok '')
           \<longrightarrow> f r ''resale_price'' = float_cell (median (map (to_numeric env) (column d ''resale_price'')))
              \<and> f r ''floor_area_sqm'' = Num (Fin 80)
              \<and> f r ''town'' = Str (ascii ''Bedok''))"
proof -
  let ?f = "clean_row env y (''lease_commence_date'' \<in> set (columns d))
              (median (map (to_numeric env) (column d ''resale_price'')))
              (median (map (to_numeric env) (column d ''floor_area_sqm'')))
              (column d ''month'') (column d ''lease_commence_date'')"
  let ?d' = "cleaned env y d"
  have keep: "keep_row = (\<lambda>r. cell_gt (r ''resale_price'') 10000 \<and> cell_gt (r ''floor_area_sqm'') 20)"
    by (rule ext) (simp add: keep_row_def)
  have 1: "clean_data env y \<lparr>cache_file = path, df = Some d\<rparr> = (None, \<lparr>cache_file = path, df = Some ?d'\<rparr>)"
    by (rule clean_data_cleaned[OF assms])
  have 2: "rows ?d' = filter (\<lambda>r. cell_gt (r ''resale_price'') 10000 \<and> cell_gt (r ''floor_area_sqm'') 20)
                  (map ?f (rows d))"
    by (simp add: rows_cleaned keep)
  have 3: "\<forall>r. ?f r ''resale_price'' =
             (case to_numeric env (r ''resale_price'') of
                None \<Rightarrow> float_cell (median (map (to_numeric env) (column d ''resale_price'')))
              | Some x \<Rightarrow> Num x)"
    by (simp add: clean_row_price fill_cell_case)
  have 4: "\<forall>r. ?f r ''floor_area_sqm'' =
             (case to_numeric env (r ''floor_area_sqm'') of
                None \<Rightarrow> float_cell (median (map (to_numeric env) (column d ''floor_area_sqm'')))
              | Some x \<Rightarrow> Num x)"
    by (simp add: clean_row_area fill_cell_case)
  have 5: "\<forall>r. ?f r ''town'' = str_strip_cell (unicode_data env) (str_title_cell (unicode_data env) (r ''town''))"
    by (simp add: clean_row_town)
  have 6: "\<forall>r. str_to_num env (ascii ''bad'') = None \<and> r ''resale_price'' = Str (ascii ''bad'')
              \<and> r ''floor_area_sqm'' = Num (Fin 80) \<and> r ''town'' = Str (ascii '' bedok '')
           \<longrightarrow> ?f r ''resale_price'' = float_cell (median (map (to_numeric env) (column d ''resale_price'')))
              \<and> ?f r ''floor_area_sqm'' = Num (Fin 80)
              \<and> ?f r ''town'' = Str (ascii ''Bedok'')"
    by (simp add: clean_row_price clean_row_area clean_row_town fill_cell_case title_strip_bedok)
  show ?thesis
    apply (rule exI[of _ ?f], rule exI[of _ ?d'])
    using 1 2 3 4 5 6 by (simp only: median_numeric_only) blast
qed

theorem invalid_numbers_take_the_median_witness:
  "set [''month'', ''resale_price'', ''floor_area_sqm'', ''town''] \<subseteq> set (columns (DataFrame three_records))
   \<and> list_ex is_Str (column (DataFrame three_records) ''town'')
   \<and> map (\<lambda>r. (r ''town'', r ''resale_price'', r ''floor_area_sqm'')) (rows (DataFrame three_records))
       = [(Str (ascii '' bedok ''), Str (ascii ''bad''), Num (Fin 80)),
          (Str (ascii ''ang mo kio''), Str (ascii ''400000''), Str (ascii ''90'')),
          (Str (ascii ''BEDOK''), Num (Fin 420000), Num (Fin 100))]
   \<and> (\<exists>d'. clean_data plain_pandas 2024 \<lparr>cache_file = ''hdb_data.parquet'', df = Some (DataFrame three_records)\<rparr>
               = (None, \<lparr>cache_file = ''hdb_data.parquet'', df = Some d'\<rparr>)
          \<and> map (\<lambda>r. (r ''town'', r ''resale_price'', r ''floor_area_sqm'')) (rows d')
              = [(Str (ascii ''Bedok''), Num (Fin 410000), Num (Fin 80)),
                 (Str (ascii ''Ang Mo Kio''), Num (Fin 400000), Num (Fin 90)),
                 (Str (ascii ''Bedok''), Num (Fin 420000), Num (Fin 100))])"
proof -
  have a: "set [''month'', ''resale_price'', ''floor_area_sqm'', ''town''] \<subseteq> set (columns (DataFrame three_records))"
    by (simp add: three_records_columns)
  have b: "list_ex is_Str (column (DataFrame three_records) ''town'')"
    by (rule three_records_towns)
  have c: "map (\<lambda>r. (r ''town'', r ''resale_price'', r ''floor_area_sqm'')) (rows (DataFrame three_records))
       = [(Str (ascii '' bedok ''), Str (ascii ''bad''), Num (Fin 80)),
          (Str (ascii ''ang mo kio''), Str (ascii ''400000''), Str (ascii ''90'')),
          (Str (ascii ''BEDOK''), Num (Fin 420000), Num (Fin 100))]"
    by (simp add: DataFrame_def three_records_def)
  obtain f d' where
    1: "clean_data plain_pandas 2024 \<lparr>cache_file = ''hdb_data.parquet'', df = Some (DataFrame three_records)\<rparr>
          = (None, \<lparr>cache_file = ''hdb_data.parquet'', df = Some d'\<rparr>)"
    and 2: "rows d' = filter (\<lambda>r. cell_gt (r ''resale_price'') 10000 \<and> cell_gt (r ''floor_area_sqm'') 20)
                  (map f (rows (DataFrame three_records)))"
    and 3: "\<And>r. f r ''resale_price'' =
             (case to_numeric plain_pandas (r ''resale_price'') of
                None \<Rightarrow> float_cell (median (map (to_numeric plain_pandas) (column (DataFrame three_records) ''resale_price'')))
              | Some x \<Rightarrow> Num x)"
    and 4: "\<And>r. f r ''floor_area_sqm'' =
             (case to_numeric plain_pandas (r ''floor_area_sqm'') of
                None \<Rightarrow> float_cell (median (map (to_numeric plain_pandas) (column (DataFrame three_records) ''floor_area_sqm'')))
              | Some x \<Rightarrow> Num x)"
    and 5: "\<And>r. f r ''town'' = str_strip_cell (unicode_data plain_pandas) (str_title_cell (unicode_data plain_pandas) (r ''town''))"
    using invalid_numbers_take_the_median[OF a b, of plain_pandas 2024 "''hdb_data.parquet''"]
    by blast
  have price: "f r ''resale_price'' =
             (case to_numeric plain_pandas (r ''resale_price'') of
                None \<Rightarrow> Num (Fin 410000) | Some x \<Rightarrow> Num x)" for r
    by (simp add: 3 three_records_prices three_records_median split: option.splits)
  have cleaned: "map (\<lambda>r. (r ''town'', r ''resale_price'', r ''floor_area_sqm'')) (rows d')
              = [(Str (ascii ''Bedok''), Num (Fin 410000), Num (Fin 80)),
                 (Str (ascii ''Ang Mo Kio''), Num (Fin 400000), Num (Fin 90)),
                 (Str (ascii ''Bedok''), Num (Fin 420000), Num (Fin 100))]"
    by (simp add: 2 price 4 5 DataFrame_def three_records_def plain_pandas_parsers decimal_examples
        title_strip_bedok title_strip_examples)
  show ?thesis
    by (intro conjI exI[of _ d'] a b c 1 cleaned)
qed

section \<open>A column without a single number\<close>

lemma median_all_missing:
  assumes "list_all (\<lambda>x. x = None) xs"
  shows "median xs = None"
proof -
  from assms have "dropna xs = []"
    by (induction xs) (auto simp: dropna_def)
  then show ?thesis by (simp add: median_def num_sort_def)
qed

lemma numbered_town_columns:
  "columns (DataFrame numbered_town_records) = [''month'', ''town'', ''resale_price'', ''floor_area_sqm'']"
  by (simp add: DataFrame_def numbered_town_records_def unique_def)

lemma numbered_town_raises:
  "clean_data env y \<lparr>cache_file = path, df = Some (DataFrame numbered_town_records)\<rparr>
     = (Some AttributeError, \<lparr>cache_file = path, df = Some (derived env y (DataFrame numbered_town_records))\<rparr>)"
proof -
  have a: "\<not> empty (DataFrame numbered_town_records)"
    by (simp add: empty_def numbered_town_columns) (simp add: DataFrame_def numbered_town_records_def)
  have b: "\<not> str_accessor (column (DataFrame numbered_town_records) ''town'')"
    by (simp add: str_accessor_def column_def DataFrame_def numbered_town_records_def)
  show ?thesis
    by (simp add: clean_data_def a clean_frame_cases numbered_town_columns b)
qed

text \<open>
  Claim C10, as stated: for every raw table in which every price fails the numeric
  coercion, the pipeline yields an empty table without raising. On a table whose towns are
  numbers the \<^verbatim>\<open>.str\<close> accessor of the town stage raises \<^verbatim>\<open>AttributeError\<close> before the filter
  is reached: \<^verbatim>\<open>_clean_data\<close> raises and leaves a table that still has its two rows.
\<close>

theorem numbered_towns_counterexample:
  "list_all (\<lambda>r. to_numeric plain_pandas (r ''resale_price'') = None)
     (rows (DataFrame numbered_town_records))
   \<and> map (\<lambda>r. r ''town'') (rows (DataFrame numbered_town_records)) = [Num (Fin 1), Num (Fin 2)]
   \<and> fst (clean_data plain_pandas 2025
            \<lparr>cache_file = ''hdb_data.parquet'', df = Some (DataFrame numbered_town_records)\<rparr>)
       = Some AttributeError
   \<and> map_option (\<lambda>d'. length (rows d'))
        (df (snd (clean_data plain_pandas 2025
            \<lparr>cache_file = ''hdb_data.parquet'', df = Some (DataFrame numbered_town_records)\<rparr>)))
       = Some 2"
proof -
  have "list_all (\<lambda>r. to_numeric plain_pandas (r ''resale_price'') = None)
     (rows (DataFrame numbered_town_records))"
    by (simp add: DataFrame_def numbered_town_records_def plain_pandas_parsers decimal_examples)
  moreover have "map (\<lambda>r. r ''town'') (rows (DataFrame numbered_town_records)) = [Num (Fin 1), Num (Fin 2)]"
    by (simp add: DataFrame_def numbered_town_records_def)
  moreover have "length (rows (derived plain_pandas 2025 (DataFrame numbered_town_records))) = 2"
    by (simp add: derived_def) (simp add: DataFrame_def numbered_town_records_def)
  ultimately show ?thesis
    by (simp add: numbered_town_raises)
qed

text \<open>
  Claim C10, amended: on a raw table that has the columns the pipeline reads and whose
  town column holds at least one string, when every price (or every area) fails the
  numeric coercion, the median of that column is missing, the fill leaves every entry of
  the column missing, and cleaning returns without an exception a table that has no rows.
\<close>

theorem all_invalid_column_empties_the_table:
  assumes "set [''month'', ''resale_price'', ''floor_area_sqm'', ''town''] \<subseteq> set (columns d)"
    and "list_ex is_Str (column d ''town'')"
    and "c = ''resale_price'' \<or> c = ''floor_area_sqm''"
    and "list_all (\<lambda>r. to_numeric env (r c) = None) (rows d)"
  shows "median (map (to_numeric env) (column d c)) = None
       \<and> fst (convert_numeric env c d) = None
       \<and> list_all (\<lambda>r. r c = NA) (rows (snd (convert_numeric env c d)))
       \<and> (\<exists>d'. clean_data env y \<lparr>cache_file = path, df = Some d\<rparr>
                   = (None, \<lparr>cache_file = path, df = Some d'\<rparr>)
              \<and> rows d' = [])"
proof -
  from assms(1,3) have cin: "c \<in> set (columns d)" by auto
  have m: "median (map (to_numeric env) (column d c)) = None"
    using assms(4) by (intro median_all_missing) (simp add: column_def list_all_iff)
  have fill: "fill_cell env None (r c) = NA" if "r \<in> set (rows d)" for r
    using that assms(4) by (simp add: fill_cell_def list_all_iff)
  have n: "list_all (\<lambda>r. r c = NA) (rows (snd (convert_numeric env c d)))"
    using fill by (simp add: convert_numeric_ok(3)[OF cin] m list_all_iff)
  have drop: "\<not> keep_row (clean_row env y l
                (median (map (to_numeric env) (column d ''resale_price'')))
                (median (map (to_numeric env) (column d ''floor_area_sqm''))) ms ls r)"
    if "r \<in> set (rows d)" for r l ms ls
    using assms(3) fill[OF that] m
    by (auto simp: keep_row_def clean_row_price clean_row_area)
  have "rows (cleaned env y d) = []"
    using drop by (simp add: rows_cleaned filter_empty_conv)
  with clean_data_cleaned[OF assms(1,2), of env y path]
  have "\<exists>d'. clean_data env y \<lparr>cache_file = path, df = Some d\<rparr>
                   = (None, \<lparr>cache_file = path, df = Some d'\<rparr>) \<and> rows d' = []"
    by blast
  with m n convert_numeric_ok(1)[OF cin] show ?thesis by simp
qed

lemma unpriced_columns:
  "columns (DataFrame unpriced_records) = [''month'', ''town'', ''resale_price'', ''floor_area_sqm'']"
  by (simp add: DataFrame_def unpriced_records_def unique_def)

theorem all_invalid_column_empties_the_table_witness:
  "set [''month'', ''resale_price'', ''floor_area_sqm'', ''town''] \<subseteq> set (columns (DataFrame unpriced_records))
   \<and> list_ex is_Str (column (DataFrame unpriced_records) ''town'')
   \<and> list_all (\<lambda>r. to_numeric plain_pandas (r ''resale_price'') = None) (rows (DataFrame unpriced_records))
   \<and> length (rows (DataFrame unpriced_records)) = 2
   \<and> median (map (to_numeric plain_pandas) (column (DataFrame unpriced_records) ''resale_price'')) = None
   \<and> (\<exists>d'. clean_data plain_pandas 2024 \<lparr>cache_file = ''hdb_data.parquet'', df = Some (DataFrame unpriced_records)\<rparr>
               = (None, \<lparr>cache_file = ''hdb_data.parquet'', df = Some d'\<rparr>)
          \<and> rows d' = [])"
proof -
  have a: "set [''month'', ''resale_price'', ''floor_area_sqm'', ''town''] \<subseteq> set (columns (DataFrame unpriced_records))"
    by (simp add: unpriced_columns)
  have t: "list_ex is_Str (column (DataFrame unpriced_records) ''town'')"
    by (simp add: DataFrame_def unpriced_records_def column_def)
  have b: "list_all (\<lambda>r. to_numeric plain_pandas (r ''resale_price'') = None) (rows (DataFrame unpriced_records))"
    by (simp add: DataFrame_def unpriced_records_def plain_pandas_parsers decimal_examples)
  have c: "length (rows (DataFrame unpriced_records)) = 2"
    by (simp add: DataFrame_def unpriced_records_def)
  show ?thesis
    using all_invalid_column_empties_the_table[OF a t _ b, of 2024 "''hdb_data.parquet''"] a t b c
    by simp
qed


section \<open>The fetch loop, unrolled\<close>

lemma fetched_0 [simp]: "fetched remote 0 = []"
  by (simp add: fetched_def)

lemma fetched_Suc: "fetched remote (Suc k) = fetched remote k @ records_of (remote k)"
  by (simp add: fetched_def)

lemma goes_on_page:
  assumes "goes_on remote k"
  obtains reported records first_total first_records where
    "remote k = Page reported records" and "remote 0 = Page first_total first_records"
    and "below_total first_total (length (fetched remote (Suc k)))"
  using assms by (auto simp: goes_on_def split: response.splits)

lemma fetch_loop_step:
  assumes "goes_on remote k"
  shows "fetch_loop remote k (fetched remote k) (length (fetched remote k)) (total_before remote k)
       = fetch_loop remote (Suc k) (fetched remote (Suc k)) (length (fetched remote (Suc k)))
           (total_before remote (Suc k))"
proof -
  from assms obtain reported records first_total first_records where
    page: "remote k = Page reported records" and first: "remote 0 = Page first_total first_records"
    and below: "below_total first_total (length (fetched remote (Suc k)))"
    by (rule goes_on_page)
  have eff: "(case total_before remote k of None \<Rightarrow> reported | Some t \<Rightarrow> t) = first_total"
    using page first by (cases "k = 0") (simp_all add: total_before_def)
  have next_total: "total_before remote (Suc k) = Some first_total"
    using first by (simp add: total_before_def)
  have len: "length (fetched remote k) + length records = length (fetched remote (Suc k))"
    and app: "fetched remote k @ records = fetched remote (Suc k)"
    using page by (simp_all add: fetched_Suc)
  show ?thesis
  proof (cases first_total)
    case (Total t)
    with below have "num_less (Fin (real (length (fetched remote (Suc k))))) t"
      by (simp add: below_total_def)
    then show ?thesis
      by (subst fetch_loop.simps) (simp only: page response.case eff Total json_total.case len app
          next_total not_True_eq_False if_False)
  next
    case Total_nan
    then show ?thesis
      by (subst fetch_loop.simps) (simp only: page response.case eff Total_nan json_total.case len app
          next_total)
  next
    case Total_missing
    with below show ?thesis by (simp add: below_total_def)
  next
    case Total_unordered
    with below show ?thesis by (simp add: below_total_def)
  qed
qed

lemma fetch_loop_run:
  assumes "\<forall>j<k. goes_on remote j"
  shows "fetch_loop remote 0 [] 0 None
       = fetch_loop remote k (fetched remote k) (length (fetched remote k)) (total_before remote k)"
  using assms
proof (induction k)
  case 0
  then show ?case by (simp add: total_before_def)
next
  case (Suc k)
  then have "fetch_loop remote 0 [] 0 None
       = fetch_loop remote k (fetched remote k) (length (fetched remote k)) (total_before remote k)"
    by simp
  also have "\<dots> = fetch_loop remote (Suc k) (fetched remote (Suc k)) (length (fetched remote (Suc k)))
           (total_before remote (Suc k))"
    using Suc.prems by (intro fetch_loop_step) simp
  finally show ?case .
qed

lemma fetch_loop_stop:
  assumes "\<not> goes_on remote k" and "k = 0 \<or> goes_on remote 0"
  shows "fetch_loop remote k (fetched remote k) (length (fetched remote k)) (total_before remote k)
       = Some (stops_with remote k)"
proof (cases "remote k")
  case Request_failed
  then show ?thesis
    by (subst fetch_loop.simps) (simp add: stops_with_def)
next
  case Invalid_envelope
  then show ?thesis
    by (subst fetch_loop.simps) (simp add: stops_with_def)
next
  case (Malformed e)
  then show ?thesis
    by (subst fetch_loop.simps) (simp add: stops_with_def)
next
  case (Page reported records)
  have "\<exists>first_total first_records. remote 0 = Page first_total first_records"
    using assms(2) Page by (auto elim: goes_on_page)
  then obtain first_total first_records where first: "remote 0 = Page first_total first_records"
    by blast
  have eff: "(case total_before remote k of None \<Rightarrow> reported | Some t \<Rightarrow> t) = first_total"
    using Page first by (cases "k = 0") (simp_all add: total_before_def)
  have len: "length (fetched remote k) + length records = length (fetched remote (Suc k))"
    and app: "fetched remote k @ records = fetched remote (Suc k)"
    using Page by (simp_all add: fetched_Suc)
  from assms(1) Page first have nb: "\<not> below_total first_total (length (fetched remote (Suc k)))"
    by (simp add: goes_on_def)
  show ?thesis
  proof (cases first_total)
    case (Total t)
    with nb have "\<not> num_less (Fin (real (length (fetched remote (Suc k))))) t"
      by (simp add: below_total_def)
    then have "fetch_loop remote k (fetched remote k) (length (fetched remote k)) (total_before remote k)
       = Some (Inr (fetched remote (Suc k)))"
      by (subst fetch_loop.simps) (simp only: Page response.case eff Total json_total.case len app
          not_False_eq_True if_True)
    then show ?thesis
      using Page first Total by (simp add: stops_with_def)
  next
    case Total_nan
    with nb show ?thesis by (simp add: below_total_def)
  next
    case Total_missing
    then have "fetch_loop remote k (fetched remote k) (length (fetched remote k)) (total_before remote k)
       = Some (Inl KeyError)"
      by (subst fetch_loop.simps) (simp only: Page response.case eff Total_missing json_total.case)
    then show ?thesis
      using Page first Total_missing by (simp add: stops_with_def)
  next
    case Total_unordered
    then have "fetch_loop remote k (fetched remote k) (length (fetched remote k)) (total_before remote k)
       = Some (Inl TypeError)"
      by (subst fetch_loop.simps) (simp only: Page response.case eff Total_unordered json_total.case)
    then show ?thesis
      using Page first Total_unordered by (simp add: stops_with_def)
  qed
qed

lemma load_from_api_stops:
  assumes "\<not> goes_on remote k" and "\<forall>j<k. goes_on remote j"
  shows "load_from_api remote p =
           Some (case stops_with remote k of
                   Inl e \<Rightarrow> (Some e, p)
                 | Inr all_records \<Rightarrow> (None, p\<lparr>df := Some (DataFrame all_records)\<rparr>))"
proof -
  from assms(2) have "k = 0 \<or> goes_on remote 0" by auto
  with fetch_loop_run[OF assms(2)] fetch_loop_stop[OF assms(1)]
  have "fetch_loop remote 0 [] 0 None = Some (stops_with remote k)"
    by simp
  then show ?thesis
    by (simp add: load_from_api_def split: sum.splits)
qed

lemma fetch_loop_never_ends:
  assumes "\<forall>k. goes_on remote k"
  shows "fetch_loop remote 0 [] 0 None = None"
proof -
  have "r = remote \<longrightarrow> a = fetched remote j \<longrightarrow> f = length a \<longrightarrow> u = total_before remote j \<longrightarrow> False"
    if "fetch_loop r j a f u = Some z" for r j a f u z
  proof (rule fetch_loop.raw_induct[where P = "\<lambda>r j a f u z.
      r = remote \<longrightarrow> a = fetched remote j \<longrightarrow> f = length a \<longrightarrow> u = total_before remote j \<longrightarrow> False",
      OF _ that], goal_cases)
    case (1 loop r j a f u z)
    show ?case
    proof (intro impI)
      assume r: "r = remote" and a: "a = fetched remote j" and f: "f = length a"
        and u: "u = total_before remote j"
      from assms have "goes_on remote j" by simp
      then obtain reported records first_total first_records where
        page: "remote j = Page reported records" and first: "remote 0 = Page first_total first_records"
        and below: "below_total first_total (length (fetched remote (Suc j)))"
        by (rule goes_on_page)
      have eff: "(case total_before remote j of None \<Rightarrow> reported | Some t \<Rightarrow> t) = first_total"
        using page first by (cases "j = 0") (simp_all add: total_before_def)
      have next_total: "total_before remote (Suc j) = Some first_total"
        using first by (simp add: total_before_def)
      have len: "length (fetched remote j) + length records = length (fetched remote (Suc j))"
        and app: "fetched remote j @ records = fetched remote (Suc j)"
        using page by (simp_all add: fetched_Suc)
      have "loop remote (Suc j) (fetched remote (Suc j)) (length (fetched remote (Suc j)))
              (total_before remote (Suc j)) = Some z"
      proof (cases first_total)
        case (Total t)
        with below have "num_less (Fin (real (length (fetched remote (Suc j))))) t"
          by (simp add: below_total_def)
        with 1(2) show ?thesis
          unfolding r a f u
          by (simp only: page response.case eff Total json_total.case len app next_total
              not_True_eq_False if_False)
      next
        case Total_nan
        with 1(2) show ?thesis
          unfolding r a f u
          by (simp only: page response.case eff Total_nan json_total.case len app next_total)
      next
        case Total_missing
        with below show ?thesis by (simp add: below_total_def)
      next
        case Total_unordered
        with below show ?thesis by (simp add: below_total_def)
      qed
      from 1(1)[OF this] show False by simp
    qed
  qed
  from this[of remote 0 "[]" 0 None]
  have "fetch_loop remote 0 [] 0 None \<noteq> Some z" for z
    by (auto simp: total_before_def)
  then show ?thesis
    by (cases "fetch_loop remote 0 [] 0 None") auto
qed

lemma first_stop:
  assumes "\<not> goes_on remote n"
  obtains k where "\<not> goes_on remote k" and "\<forall>j<k. goes_on remote j"
proof -
  define k where "k = (LEAST i. \<not> goes_on remote i)"
  have "\<not> goes_on remote k"
    unfolding k_def using assms by (rule LeastI)
  moreover have "\<forall>j<k. goes_on remote j"
    unfolding k_def using not_less_Least by blast
  ultimately show ?thesis by (rule that)
qed

section \<open>Termination of the fetcher\<close>

lemma empty_pages_go_on: "goes_on empty_pages k"
proof -
  have "fetched empty_pages n = []" for n
    by (induction n) (simp_all add: fetched_Suc empty_pages_def)
  then show ?thesis
    by (simp add: goes_on_def empty_pages_def below_total_def)
qed

lemma endless_pages_go_on: "goes_on endless_pages k"
  by (simp add: goes_on_def endless_pages_def below_total_def)



lemma steady_pages_fetched: "fetched steady_pages 2 = three_records @ three_records"
proof -
  have "(2::nat) = Suc (Suc 0)" by simp
  then show ?thesis
    by (simp only: fetched_Suc fetched_0) (simp add: steady_pages_def)
qed

lemma steady_pages_go_on: "goes_on steady_pages 0" "\<not> goes_on steady_pages 1"
proof -
  have "fetched steady_pages (Suc 0) = three_records"
    by (simp add: fetched_Suc steady_pages_def)
  then show "goes_on steady_pages 0"
    by (simp add: goes_on_def steady_pages_def below_total_def three_records_length)
  have "fetched steady_pages (Suc 1) = three_records @ three_records"
    using steady_pages_fetched by (simp add: numeral_2_eq_2)
  then show "\<not> goes_on steady_pages 1"
    by (simp add: goes_on_def steady_pages_def below_total_def three_records_length)
qed


section \<open>Partial results of the fetcher\<close>

text \<open>
  Claim C6, as stated: an error after at least one retrieved page gives the accumulated
  records and not an error. The source tests \<^verbatim>\<open>offset > 0\<close>, the number of records so far,
  not the number of pages: after a valid first page without records, a transport error on
  the second request is raised to the caller.
\<close>

theorem empty_first_page_counterexample:
  "empty_page_then_failure 0 = Page (Total (Fin 5)) []
   \<and> empty_page_then_failure 1 = Request_failed
   \<and> load_from_api empty_page_then_failure (fresh_processor ''hdb_data.parquet'')
       = Some (Some RequestException, fresh_processor ''hdb_data.parquet'')"
proof -
  have "fetch_loop empty_page_then_failure 0 [] 0 None = Some (Inl RequestException)"
    by (subst fetch_loop.simps, simp add: empty_page_then_failure_def,
        subst fetch_loop.simps, simp add: empty_page_then_failure_def except_clause_def)
  then show ?thesis
    by (simp add: load_from_api_def empty_page_then_failure_def)
qed

lemma fetched_pages:
  assumes "\<forall>j<k. remote j = Page (reported j) (records j)" and "n \<le> k"
  shows "fetched remote n = concat (map records [0..<n])"
  using assms(2)
proof (induction n)
  case 0
  then show ?case by simp
next
  case (Suc n)
  with assms(1) have "remote n = Page (reported n) (records n)" by simp
  with Suc show ?case by (simp add: fetched_Suc)
qed

text \<open>
  Claim C6, amended: let the requests before the \<open>k\<close>-th meet valid pages whose records
  stay below the total reported by the first page, and let the \<open>k\<close>-th request meet a
  transport or validation error. If the pages so far carried at least one record, the
  fetcher stops and the table is built from exactly the accumulated records; if they
  carried none (in particular when the very first request fails), the error is raised to
  the caller and no table is assigned. In particular a first page with records followed by
  a network error on the second request gives exactly the records of the first page.
\<close>

theorem partial_records_after_failure:
  assumes "remote k = Request_failed \<or> remote k = Invalid_envelope"
    and "\<forall>j<k. remote j = Page (reported j) (records j)"
    and "\<forall>j. 0 < j \<and> j \<le> k \<longrightarrow> below_total (reported 0) (length (concat (map records [0..<j])))"
  shows "load_from_api remote p =
           Some (if concat (map records [0..<k]) \<noteq> []
                 then (None, p\<lparr>df := Some (DataFrame (concat (map records [0..<k])))\<rparr>)
                 else (Some (if remote k = Invalid_envelope then ValueError else RequestException), p))"
proof -
  have stop: "\<not> goes_on remote k"
    using assms(1) by (auto simp: goes_on_def)
  have run: "\<forall>j<k. goes_on remote j"
  proof (intro allI impI)
    fix j assume j: "j < k"
    then have "0 < k" by simp
    with assms(2) have first: "remote 0 = Page (reported 0) (records 0)" by simp
    from j assms(2) have page: "remote j = Page (reported j) (records j)" by simp
    from j have "fetched remote (Suc j) = concat (map records [0..<Suc j])"
      by (intro fetched_pages[OF assms(2)]) simp
    moreover from j assms(3) have "below_total (reported 0) (length (concat (map records [0..<Suc j])))"
      by (metis Suc_leI zero_less_Suc)
    ultimately show "goes_on remote j"
      using first page by (simp add: goes_on_def)
  qed
  have "stops_with remote k =
      (if fetched remote k \<noteq> [] then Inr (fetched remote k)
       else Inl (if remote k = Invalid_envelope then ValueError else RequestException))"
    using assms(1)
    by (cases "remote k = Request_failed") (simp_all add: stops_with_def except_clause_def)
  moreover have "fetched remote k = concat (map records [0..<k])"
    by (rule fetched_pages[OF assms(2)]) simp
  ultimately have "stops_with remote k =
      (if concat (map records [0..<k]) \<noteq> [] then Inr (concat (map records [0..<k]))
       else Inl (if remote k = Invalid_envelope then ValueError else RequestException))"
    by (simp only:)
  with load_from_api_stops[OF stop run, of p] show ?thesis
    by simp
qed

theorem partial_records_after_failure_witness:
  "page_then_failure 0 = Page (Total (Fin 5000)) three_records
   \<and> page_then_failure 1 = Request_failed
   \<and> length three_records = 3
   \<and> load_from_api page_then_failure (fresh_processor ''hdb_data.parquet'')
       = Some (None, (fresh_processor ''hdb_data.parquet'')\<lparr>df := Some (DataFrame three_records)\<rparr>)"
proof -
  have 1: "page_then_failure 1 = Request_failed \<or> page_then_failure 1 = Invalid_envelope"
    by (simp add: page_then_failure_def)
  have 2: "\<forall>j<1. page_then_failure j = Page ((\<lambda>j. Total (Fin 5000)) j) ((\<lambda>j. three_records) j)"
    by (simp add: page_then_failure_def)
  have 3: "\<forall>j. 0 < j \<and> j \<le> 1 \<longrightarrow>
      below_total ((\<lambda>j::nat. Total (Fin 5000)) 0) (length (concat (map (\<lambda>j. three_records) [0..<j])))"
  proof (intro allI impI)
    fix j :: nat assume "0 < j \<and> j \<le> 1"
    then have "j = 1" by simp
    then show "below_total ((\<lambda>j::nat. Total (Fin 5000)) 0) (length (concat (map (\<lambda>j. three_records) [0..<j])))"
      by (simp add: three_records_length below_total_def)
  qed
  have ne: "three_records \<noteq> []"
    by (simp add: three_records_def)
  show ?thesis
    using partial_records_after_failure[where remote = page_then_failure and k = 1
        and reported = "\<lambda>j. Total (Fin 5000)" and records = "\<lambda>j. three_records"
        and p = "fresh_processor ''hdb_data.parquet''", OF 1 2 3] ne
    by (simp add: three_records_length) (simp add: page_then_failure_def)
qed


section \<open>Title-casing and stripping twice\<close>

text \<open>
  On a string of code points below 128 the Unicode database plays no part, title-casing
  maps one character to one, and title-casing and stripping a second time change nothing.
\<close>

lemma title_from_ascii:
  "list_all (\<lambda>x. x < 128) s \<Longrightarrow> title_from u b before s = ascii_title b s"
  by (induction s arbitrary: b before)
    (simp_all add: to_title_def to_lower_def lower_at_def is_cased_def ascii_case_def ascii_letter_def)

lemma str_title_ascii: "list_all (\<lambda>x. x < 128) s \<Longrightarrow> str_title u s = ascii_title False s"
  by (simp add: str_title_def title_from_ascii)

lemma ascii_case_below: "c < 128 \<Longrightarrow> ascii_case b c < 128"
  by (auto simp: ascii_case_def)

lemma ascii_letter_case [simp]: "ascii_letter (ascii_case b c) = ascii_letter c"
  by (auto simp: ascii_case_def ascii_letter_def)

lemma ascii_case_idem [simp]: "ascii_case b (ascii_case b c) = ascii_case b c"
  by (auto simp: ascii_case_def)

lemma space_not_letter: "is_space u c \<Longrightarrow> \<not> ascii_letter c"
  by (auto simp: is_space_def ascii_letter_def split: if_splits)

lemma is_space_ascii_case [simp]: "is_space u (ascii_case b c) = is_space u c"
  by (auto simp: is_space_def ascii_case_def)

lemma ascii_title_below: "list_all (\<lambda>x. x < 128) s \<Longrightarrow> list_all (\<lambda>x. x < 128) (ascii_title b s)"
  by (induction s arbitrary: b) (simp_all add: ascii_case_below)

lemma ascii_title_idem: "ascii_title b (ascii_title b s) = ascii_title b s"
  by (induction s arbitrary: b) simp_all

lemma ascii_title_lstrip:
  "dropWhile (is_space u) (ascii_title False s) = ascii_title False (dropWhile (is_space u) s)"
proof (induction s)
  case Nil
  then show ?case by simp
next
  case (Cons c s)
  show ?case
  proof (cases "is_space u c")
    case True
    then have "\<not> ascii_letter c" by (rule space_not_letter)
    with True Cons show ?thesis by simp
  next
    case False
    then show ?thesis by simp
  qed
qed

lemma rstrip_Nil [simp]: "rstrip u [] = []"
  by (simp add: rstrip_def)

lemma rstrip_Cons:
  "rstrip u (c # s) = (if rstrip u s = [] \<and> is_space u c then [] else c # rstrip u s)"
  by (auto simp: rstrip_def dropWhile_append)

lemma ascii_title_eq_Nil [simp]: "ascii_title b s = [] \<longleftrightarrow> s = []"
  by (cases s) simp_all

lemma ascii_title_rstrip: "rstrip u (ascii_title b s) = ascii_title b (rstrip u s)"
proof (induction s arbitrary: b)
  case Nil
  then show ?case by simp
next
  case (Cons c s)
  then show ?case by (simp add: rstrip_Cons)
qed

lemma str_strip_rstrip: "str_strip u s = rstrip u (dropWhile (is_space u) s)"
  by (simp add: str_strip_def rstrip_def)

lemma str_strip_ascii_title:
  "str_strip u (ascii_title False s) = ascii_title False (str_strip u s)"
  by (simp add: str_strip_rstrip ascii_title_lstrip ascii_title_rstrip)

lemma rstrip_lstrip: "dropWhile (is_space u) (rstrip u s) = rstrip u (dropWhile (is_space u) s)"
proof (induction s)
  case Nil
  then show ?case by simp
next
  case (Cons c s)
  then show ?case
    by (auto simp: rstrip_Cons split: if_splits)
qed

lemma rstrip_idem: "rstrip u (rstrip u s) = rstrip u s"
  by (induction s) (auto simp: rstrip_Cons)

lemma lstrip_idem:
  "dropWhile (is_space u) (dropWhile (is_space u) s) = dropWhile (is_space u) s"
  by (induction s) auto

lemma str_strip_idem: "str_strip u (str_strip u s) = str_strip u s"
  by (simp add: str_strip_rstrip rstrip_lstrip rstrip_idem lstrip_idem)

lemma str_strip_below: "list_all (\<lambda>x. x < 128) s \<Longrightarrow> list_all (\<lambda>x. x < 128) (str_strip u s)"
proof -
  assume "list_all (\<lambda>x. x < 128) s"
  then have "\<forall>x \<in> set s. x < 128"
    by (simp add: list_all_iff)
  moreover have sub: "set (dropWhile P xs) \<subseteq> set xs" for P and xs :: "nat list"
    by (auto dest: set_dropWhileD)
  have "set (str_strip u s) \<subseteq> set s"
    using sub[of "is_space u" "rev (dropWhile (is_space u) s)"] sub[of "is_space u" s]
    by (auto simp: str_strip_def)
  ultimately show ?thesis
    by (auto simp: list_all_iff)
qed

lemma title_strip_idem:
  assumes "list_all (\<lambda>x. x < 128) s"
  shows "str_strip u (str_title u (str_strip u (str_title u s))) = str_strip u (str_title u s)"
proof -
  have 1: "str_title u s = ascii_title False s"
    by (rule str_title_ascii[OF assms])
  have "list_all (\<lambda>x. x < 128) (str_strip u (ascii_title False s))"
    by (intro str_strip_below ascii_title_below assms)
  then have 2: "str_title u (str_strip u (ascii_title False s))
      = ascii_title False (str_strip u (ascii_title False s))"
    by (rule str_title_ascii)
  show ?thesis
    unfolding 1 2
    by (simp add: str_strip_ascii_title str_strip_idem ascii_title_idem)
qed

lemma town_cell_idem:
  "ascii_town c \<Longrightarrow>
     str_strip_cell u (str_title_cell u (str_strip_cell u (str_title_cell u c)))
       = str_strip_cell u (str_title_cell u c)"
  by (cases c) (simp_all add: ascii_town_def title_strip_idem)

lemma town_cell_kind:
  "is_Str (str_strip_cell u (str_title_cell u c)) \<or> str_strip_cell u (str_title_cell u c) = NA"
  by (cases c) simp_all

lemma to_datetime_entry_idem:
  "to_datetime_entry env col' (to_datetime_entry env col c) = to_datetime_entry env col c"
  by (cases c) (simp_all split: option.splits)

section \<open>Cleaning a cleaned table\<close>

lemma fill_cell_kept: "cell_gt c k \<Longrightarrow> fill_cell env m c = c"
  by (cases c) (simp_all add: fill_cell_def)

text \<open>The second pass on a row that the first pass kept.\<close>

lemma clean_row_twice:
  assumes "keep_row (clean_row env y1 l mp ma ms ls r)"
  shows "clean_row env y2 l mp' ma' ms' ls' (clean_row env y1 l mp ma ms ls r)
       = (clean_row env y2 l mp ma ms ls r)
           (''town'' := str_strip_cell (unicode_data env) (str_title_cell (unicode_data env)
                          (str_strip_cell (unicode_data env) (str_title_cell (unicode_data env) (r ''town'')))))"
proof -
  from assms have p: "fill_cell env mp' (fill_cell env mp (r ''resale_price'')) = fill_cell env mp (r ''resale_price'')"
    and a: "fill_cell env ma' (fill_cell env ma (r ''floor_area_sqm'')) = fill_cell env ma (r ''floor_area_sqm'')"
    by (simp_all add: keep_row_def clean_row_price clean_row_area
        fill_cell_kept[where k = 10000] fill_cell_kept[where k = 20])
  show ?thesis
    by (rule ext) (simp add: clean_row_def derive_row_def Let_def p a to_datetime_entry_idem)
qed

lemma keep_row_town: "keep_row (r(''town'' := v)) = keep_row r"
  by (simp add: keep_row_def)

lemma keep_row_year:
  "keep_row (clean_row env y2 l mp ma ms ls r) = keep_row (clean_row env y1 l mp ma ms ls r)"
  by (simp add: keep_row_def clean_row_price clean_row_area)

lemma clean_row_year:
  "c \<noteq> ''lease_remaining'' \<Longrightarrow>
     clean_row env y2 l mp ma ms ls r c = clean_row env y1 l mp ma ms ls r c"
  by (simp add: clean_row_def derive_row_def Let_def)

lemma filter_map_twice:
  assumes "\<And>r. P (f r) \<Longrightarrow> g (f r) = h r" and "\<And>r. P (h r) = P (f r)"
  shows "filter P (map g (filter P (map f rs))) = filter P (map h rs)"
  using assms by (induction rs) auto

lemma filter_map_length:
  assumes "\<And>r. P (h r) = P (f r)"
  shows "length (filter P (map h rs)) = length (filter P (map f rs))"
  using assms by (induction rs) auto

lemma filter_map_column:
  assumes "\<And>r. P (h r) = P (f r)" and "\<And>r. h r c = f r c"
  shows "map (\<lambda>r. r c) (filter P (map h rs)) = map (\<lambda>r. r c) (filter P (map f rs))"
  using assms by (induction rs) auto

lemma filter_map_cong:
  assumes "\<And>r. r \<in> set rs \<Longrightarrow> h r = f r"
  shows "filter P (map h rs) = filter P (map f rs)"
  using assms by (induction rs) auto

text \<open>
  The table after two passes, in closed form: the rows that one pass in the second year
  keeps, with the town title-cased and stripped twice.
\<close>

lemma cleaned_twice_rows:
  "rows (cleaned env y2 (cleaned env y1 d)) =
     filter keep_row
       (map (\<lambda>r. (clean_row env y2 (''lease_commence_date'' \<in> set (columns d))
                    (median (map (to_numeric env) (column d ''resale_price'')))
                    (median (map (to_numeric env) (column d ''floor_area_sqm'')))
                    (column d ''month'') (column d ''lease_commence_date'') r)
                 (''town'' := str_strip_cell (unicode_data env) (str_title_cell (unicode_data env)
                     (str_strip_cell (unicode_data env) (str_title_cell (unicode_data env) (r ''town''))))))
          (rows d))"
proof -
  have l1: "(''lease_commence_date'' \<in> set (columns (cleaned env y1 d)))
      = (''lease_commence_date'' \<in> set (columns d))"
    by (simp add: columns_cleaned set_append_new)
  show ?thesis
    unfolding rows_cleaned[of env y2 "cleaned env y1 d"] l1
    unfolding rows_cleaned[of env y1 d]
    by (rule filter_map_twice) (simp_all add: clean_row_twice keep_row_town keep_row_year)
qed

lemma cleaned_twice_columns: "columns (cleaned env y2 (cleaned env y1 d)) = columns (cleaned env y1 d)"
  by (simp add: columns_cleaned append_new_mem set_append_new)

lemma cleaned_town_accessor: "str_accessor (column (cleaned env y d) ''town'')"
proof -
  have "is_Str c \<or> c = NA" if "c \<in> set (column (cleaned env y d) ''town'')" for c
  proof -
    from that obtain x where
      "c = str_strip_cell (unicode_data env) (str_title_cell (unicode_data env) x)"
      by (auto simp: column_def rows_cleaned clean_row_town)
    then show ?thesis
      using town_cell_kind[of "unicode_data env" x] by simp
  qed
  then show ?thesis
    by (auto simp: str_accessor_def list_ex_iff list_all_iff)
qed

lemma cleaned_twice:
  assumes "set [''month'', ''resale_price'', ''floor_area_sqm'', ''town''] \<subseteq> set (columns d)"
  shows "clean_data env y2 \<lparr>cache_file = path, df = Some (cleaned env y1 d)\<rparr>
           = (None, \<lparr>cache_file = path,
                     df = Some (if rows (cleaned env y1 d) = [] then cleaned env y1 d
                                else cleaned env y2 (cleaned env y1 d))\<rparr>)"
proof (cases "rows (cleaned env y1 d) = []")
  case True
  then show ?thesis
    by (simp add: clean_data_def empty_def)
next
  case False
  have s1: "set [''month'', ''resale_price'', ''floor_area_sqm'', ''town'']
      \<subseteq> set (columns (cleaned env y1 d))"
    using assms by (auto simp: columns_cleaned set_append_new)
  from s1 have "columns (cleaned env y1 d) \<noteq> []" by auto
  with False have "\<not> empty (cleaned env y1 d)"
    by (simp add: empty_def)
  with False show ?thesis
    by (simp add: clean_data_def clean_frame_rows[OF s1 cleaned_town_accessor])
qed

lemma dotted_title:
  "str_strip dotted_i (str_title dotted_i [97, 304, 98]) = [65, 105, 775, 98]"
  "str_strip dotted_i (str_title dotted_i [65, 105, 775, 98]) = [65, 105, 775, 66]"
  by (simp_all add: str_strip_def str_title_def to_title_def to_lower_def lower_at_def
      is_cased_def is_space_def dotted_i_def)

lemma dotted_records_columns:
  "columns (DataFrame dotted_records) = [''month'', ''town'', ''resale_price'', ''floor_area_sqm'']"
  by (simp add: DataFrame_def dotted_records_def unique_def)

lemma dotted_records_once:
  "clean_data plain_pandas y \<lparr>cache_file = path, df = Some (DataFrame dotted_records)\<rparr>
     = (None, \<lparr>cache_file = path, df = Some (cleaned plain_pandas y (DataFrame dotted_records))\<rparr>)"
  by (rule clean_data_cleaned)
    (simp_all add: dotted_records_columns, simp add: DataFrame_def dotted_records_def column_def)

lemma dotted_records_medians:
  "median (map (to_numeric plain_pandas) (column (DataFrame dotted_records) ''resale_price''))
     = Some (Fin 400000)"
  "median (map (to_numeric plain_pandas) (column (DataFrame dotted_records) ''floor_area_sqm''))
     = Some (Fin 80)"
  by (simp_all add: DataFrame_def dotted_records_def column_def median_def dropna_def num_sort_def)

lemma dotted_records_towns:
  "column (cleaned plain_pandas y (DataFrame dotted_records)) ''town'' = [Str [65, 105, 775, 98]]"
  "column (cleaned plain_pandas y2 (cleaned plain_pandas y (DataFrame dotted_records))) ''town''
     = [Str [65, 105, 775, 66]]"
proof -
  show "column (cleaned plain_pandas y (DataFrame dotted_records)) ''town'' = [Str [65, 105, 775, 98]]"
    unfolding column_def rows_cleaned dotted_records_medians
    by (simp add: DataFrame_def dotted_records_def clean_row_def derive_row_def keep_row_def
        fill_cell_def Let_def plain_pandas_parsers dotted_title)
  show "column (cleaned plain_pandas y2 (cleaned plain_pandas y (DataFrame dotted_records))) ''town''
     = [Str [65, 105, 775, 66]]"
    unfolding column_def cleaned_twice_rows dotted_records_medians
    by (simp add: DataFrame_def dotted_records_def clean_row_def derive_row_def keep_row_def
        fill_cell_def Let_def plain_pandas_parsers dotted_title)
qed

text \<open>
  Claim C9, as stated: a second pass of the pipeline leaves the town values unchanged.
  Python's \<^verbatim>\<open>str.title\<close> is not idempotent beyond ASCII. The town made of \<^verbatim>\<open>a\<close>, the capital I
  with a dot above (U+0130) and \<^verbatim>\<open>b\<close> becomes \<^verbatim>\<open>A\<close>, \<^verbatim>\<open>i\<close>, the combining dot above (U+0307), \<^verbatim>\<open>b\<close>
  in the first pass: the lower case of U+0130 is two characters. In the second pass the
  \<^verbatim>\<open>b\<close> follows the combining dot, which is not cased, and becomes \<^verbatim>\<open>B\<close>.
\<close>

theorem dotted_town_counterexample:
  "fst (clean_data plain_pandas 2025
          \<lparr>cache_file = ''hdb_data.parquet'', df = Some (DataFrame dotted_records)\<rparr>) = None
   \<and> map_option (\<lambda>t. column t ''town'')
        (df (snd (clean_data plain_pandas 2025
          \<lparr>cache_file = ''hdb_data.parquet'', df = Some (DataFrame dotted_records)\<rparr>)))
       = Some [Str [65, 105, 775, 98]]
   \<and> fst (clean_data plain_pandas 2025 (snd (clean_data plain_pandas 2025
          \<lparr>cache_file = ''hdb_data.parquet'', df = Some (DataFrame dotted_records)\<rparr>))) = None
   \<and> map_option (\<lambda>t. column t ''town'')
        (df (snd (clean_data plain_pandas 2025 (snd (clean_data plain_pandas 2025
          \<lparr>cache_file = ''hdb_data.parquet'', df = Some (DataFrame dotted_records)\<rparr>)))))
       = Some [Str [65, 105, 775, 66]]"
proof -
  have s: "set [''month'', ''resale_price'', ''floor_area_sqm'', ''town'']
      \<subseteq> set (columns (DataFrame dotted_records))"
    by (simp add: dotted_records_columns)
  have ne: "rows (cleaned plain_pandas 2025 (DataFrame dotted_records)) \<noteq> []"
    using dotted_records_towns(1)[of 2025] by (auto simp: column_def)
  show ?thesis
    by (simp add: dotted_records_once cleaned_twice[OF s] ne dotted_records_towns)
qed

text \<open>
  Claim C9, amended: when a first pass of the pipeline has returned normally, a second pass
  (in a calendar year that may be a later one) returns normally too; it removes no row,
  leaves the columns as they are and changes no value outside \<^verbatim>\<open>town\<close> and
  \<^verbatim>\<open>lease_remaining\<close>, and it changes \<^verbatim>\<open>lease_remaining\<close> only when the year has changed. When
  the town names of the raw table are made of code points below 128, the second pass
  leaves the town values unchanged as well, and what it returns is the table that one pass
  in the second year returns, so with the same year nothing changes at all.
\<close>

theorem second_cleaning_keeps_rows:
  assumes "clean_data env y1 \<lparr>cache_file = path, df = Some d\<rparr>
             = (None, \<lparr>cache_file = path, df = Some d1\<rparr>)"
  shows "\<exists>d2.
      clean_data env y2 \<lparr>cache_file = path, df = Some d1\<rparr> = (None, \<lparr>cache_file = path, df = Some d2\<rparr>)
    \<and> length (rows d2) = length (rows d1)
    \<and> columns d2 = columns d1
    \<and> (\<forall>c. c \<noteq> ''town'' \<and> (c \<noteq> ''lease_remaining'' \<or> y2 = y1) \<longrightarrow> column d2 c = column d1 c)
    \<and> (list_all ascii_town (column d ''town'') \<longrightarrow>
          column d2 ''town'' = column d1 ''town''
        \<and> clean_data env y2 \<lparr>cache_file = path, df = Some d\<rparr> = (None, \<lparr>cache_file = path, df = Some d2\<rparr>)
        \<and> (y2 = y1 \<longrightarrow> d2 = d1))"
proof (cases "empty d")
  case True
  with clean_data_returned[OF assms] have d1: "d1 = d" by simp
  from True have "clean_data env y2 \<lparr>cache_file = path, df = Some d\<rparr>
      = (None, \<lparr>cache_file = path, df = Some d\<rparr>)"
    by (simp add: clean_data_def)
  then show ?thesis
    unfolding d1 by blast
next
  case False
  with clean_data_returned[OF assms] have d1: "d1 = cleaned env y1 d" by simp
  obtain e d' where cf: "clean_frame env y1 d = (e, d')"
    by (cases "clean_frame env y1 d")
  with assms False have "e = None"
    by (simp add: clean_data_def)
  with cf have cols: "set [''month'', ''resale_price'', ''floor_area_sqm'', ''town''] \<subseteq> set (columns d)"
    and acc: "str_accessor (column d ''town'')"
    using clean_frame_returned(2,3)[of env y1 d d'] by simp_all
  let ?l = "''lease_commence_date'' \<in> set (columns d)"
  let ?mp = "median (map (to_numeric env) (column d ''resale_price''))"
  let ?ma = "median (map (to_numeric env) (column d ''floor_area_sqm''))"
  let ?f = "\<lambda>y. clean_row env y ?l ?mp ?ma (column d ''month'') (column d ''lease_commence_date'')"
  let ?h = "\<lambda>r. (?f y2 r)(''town'' := str_strip_cell (unicode_data env) (str_title_cell (unicode_data env)
                     (str_strip_cell (unicode_data env) (str_title_cell (unicode_data env) (r ''town'')))))"
  define d2 where "d2 = (cleaned env y1 d)\<lparr>rows := filter keep_row (map ?h (rows d))\<rparr>"
  have keep_h: "keep_row (?h r) = keep_row (?f y1 r)" for r
    by (simp add: keep_row_town keep_row_year[of env y2 _ _ _ _ _ _ y1])
  have r2: "rows d2 = filter keep_row (map ?h (rows d))"
    by (simp add: d2_def)
  have len: "length (rows d2) = length (rows d1)"
    unfolding r2 d1 rows_cleaned by (rule filter_map_length) (rule keep_h)
  have second: "clean_data env y2 \<lparr>cache_file = path, df = Some d1\<rparr>
      = (None, \<lparr>cache_file = path, df = Some d2\<rparr>)"
  proof (cases "rows (cleaned env y1 d) = []")
    case True
    with len have "rows d2 = []"
      by (simp add: d1)
    with True have "d2 = cleaned env y1 d"
      by (simp add: d2_def)
    with True show ?thesis
      by (simp add: d1 cleaned_twice[OF cols])
  next
    case False
    have "cleaned env y2 (cleaned env y1 d) = d2"
      by (rule frame.equality) (simp_all add: r2 d2_def cleaned_twice_rows cleaned_twice_columns)
    with False show ?thesis
      by (simp add: d1 cleaned_twice[OF cols])
  qed
  have columns: "columns d2 = columns d1"
    by (simp add: d2_def d1)
  have same: "column d2 c = column d1 c" if "c \<noteq> ''town'' \<and> (c \<noteq> ''lease_remaining'' \<or> y2 = y1)" for c
  proof -
    have "?h r c = ?f y1 r c" for r
      using that by (auto simp: clean_row_year)
    then show ?thesis
      unfolding d1 column_def[of d2] column_def[of "cleaned env y1 d"] r2 rows_cleaned
      by (intro filter_map_column keep_h)
  qed
  have ascii: "column d2 ''town'' = column d1 ''town''
        \<and> clean_data env y2 \<lparr>cache_file = path, df = Some d\<rparr> = (None, \<lparr>cache_file = path, df = Some d2\<rparr>)
        \<and> (y2 = y1 \<longrightarrow> d2 = d1)"
    if towns: "list_all ascii_town (column d ''town'')"
  proof -
    have h: "?h r = ?f y2 r" if "r \<in> set (rows d)" for r
    proof -
      from towns that have "ascii_town (r ''town'')"
        by (simp add: list_all_iff column_def)
      then show ?thesis
        by (intro ext) (simp add: town_cell_idem clean_row_town)
    qed
    have "rows d2 = filter keep_row (map (?f y2) (rows d))"
      unfolding r2 by (rule filter_map_cong) (rule h)
    then have d2: "d2 = cleaned env y2 d"
      by (simp add: d2_def cleaned_def)
    have "column (cleaned env y2 d) ''town'' = column (cleaned env y1 d) ''town''"
      unfolding column_def[of "cleaned env y2 d"] column_def[of "cleaned env y1 d"] rows_cleaned
      by (rule filter_map_column) (rule keep_row_year, rule clean_row_year, simp)
    moreover have "clean_data env y2 \<lparr>cache_file = path, df = Some d\<rparr>
        = (None, \<lparr>cache_file = path, df = Some (cleaned env y2 d)\<rparr>)"
      using False by (simp add: clean_data_def clean_frame_rows[OF cols acc])
    ultimately show ?thesis
      by (simp add: d2 d1)
  qed
  show ?thesis
    using second len columns same ascii by blast
qed

theorem second_cleaning_keeps_rows_witness:
  "clean_data plain_pandas 2024 \<lparr>cache_file = ''hdb_data.parquet'', df = Some (DataFrame three_records)\<rparr>
     = (None, \<lparr>cache_file = ''hdb_data.parquet'',
               df = Some (cleaned plain_pandas 2024 (DataFrame three_records))\<rparr>)
   \<and> list_all ascii_town (column (DataFrame three_records) ''town'')
   \<and> map (\<lambda>r. (r ''town'', r ''lease_remaining''))
        (rows (cleaned plain_pandas 2024 (DataFrame three_records)))
       = [(Str (ascii ''Bedok''), Num (Fin 60)), (Str (ascii ''Ang Mo Kio''), Num (Fin 65)),
          (Str (ascii ''Bedok''), Num (Fin 75))]
   \<and> (\<exists>d2.
        clean_data plain_pandas 2025
          \<lparr>cache_file = ''hdb_data.parquet'', df = Some (cleaned plain_pandas 2024 (DataFrame three_records))\<rparr>
          = (None, \<lparr>cache_file = ''hdb_data.parquet'', df = Some d2\<rparr>)
      \<and> length (rows d2) = 3
      \<and> map (\<lambda>r. (r ''town'', r ''lease_remaining'')) (rows d2)
          = [(Str (ascii ''Bedok''), Num (Fin 59)), (Str (ascii ''Ang Mo Kio''), Num (Fin 64)),
             (Str (ascii ''Bedok''), Num (Fin 74))])"
proof -
  let ?p = "\<lambda>d. \<lparr>cache_file = ''hdb_data.parquet'', df = Some d\<rparr>"
  let ?d1 = "cleaned plain_pandas 2024 (DataFrame three_records)"
  have a: "clean_data plain_pandas 2024 (?p (DataFrame three_records)) = (None, ?p ?d1)"
    by (rule three_records_clean_ok)
  have b: "list_all ascii_town (column (DataFrame three_records) ''town'')"
    by (simp add: DataFrame_def three_records_def column_def ascii_town_def ascii_def)
  obtain d2 where
    1: "clean_data plain_pandas 2025 (?p ?d1) = (None, ?p d2)"
    and 2: "length (rows d2) = length (rows ?d1)"
    and 3: "clean_data plain_pandas 2025 (?p (DataFrame three_records)) = (None, ?p d2)"
    using second_cleaning_keeps_rows[OF a, of 2025] b by blast
  have d2: "d2 = cleaned plain_pandas 2025 (DataFrame three_records)"
    using 3 three_records_clean_ok[of plain_pandas 2025 "''hdb_data.parquet''"] by simp
  have pick: "map (\<lambda>r. (r ''town'', r ''lease_remaining'')) rs
      = map (\<lambda>(m, t, p, a, l). (t, l))
          (map (\<lambda>r. (r ''month'', r ''town'', r ''resale_price'', r ''floor_area_sqm'', r ''lease_remaining'')) rs)"
    for rs :: "(string \<Rightarrow> cell) list"
    by simp
  have 4: "map (\<lambda>r. (r ''town'', r ''lease_remaining'')) (rows ?d1)
          = [(Str (ascii ''Bedok''), Num (Fin 60)), (Str (ascii ''Ang Mo Kio''), Num (Fin 65)),
             (Str (ascii ''Bedok''), Num (Fin 75))]"
    unfolding pick three_records_cleaned by simp
  have 5: "map (\<lambda>r. (r ''town'', r ''lease_remaining'')) (rows d2)
          = [(Str (ascii ''Bedok''), Num (Fin 59)), (Str (ascii ''Ang Mo Kio''), Num (Fin 64)),
             (Str (ascii ''Bedok''), Num (Fin 74))]"
    unfolding d2 pick three_records_cleaned by simp
  have 6: "length (rows d2) = 3"
    using 2 by (simp add: three_records_cleaned_length)
  show ?thesis
    by (intro conjI exI[of _ d2] a b 1 4 5 6)
qed


section \<open>Saving and loading the cache\<close>

lemma documented_fields:
  "read_parquet (documented env) = parse_parquet"
  "read_csv (documented env) = parse_csv env"
  "to_parquet (documented env) = write_parquet"
  "to_csv (documented env) = write_csv env"
  by (simp_all add: documented_def)

lemma take_hd: "take n xs = y # ys \<Longrightarrow> hd xs = y"
  by (cases xs; cases n) simp_all

lemma csv_is_not_parquet: "endswith path ''.csv'' \<Longrightarrow> \<not> endswith path ''.parquet''"
proof
  assume "endswith path ''.csv''" and "endswith path ''.parquet''"
  then have "hd (rev path) = CHR ''v''" and "hd (rev path) = CHR ''t''"
    by (auto simp: endswith_def dest: take_hd)
  then show False by simp
qed

lemma cells_of_table_of: "cells_of (table_of (columns d) (cells_of d)) = cells_of d"
proof -
  have "map (\<lambda>c. case map_of (zip (columns d) (map r (columns d))) c of None \<Rightarrow> NA | Some v \<Rightarrow> v)
          (columns d) = map r (columns d)" for r :: "string \<Rightarrow> cell"
    by (rule map_cong) (simp_all add: map_of_zip_map)
  then show ?thesis
    by (simp add: cells_of_def table_of_def comp_def)
qed

lemma table_of_column:
  assumes "distinct labels" and "i < length labels"
    and "\<And>vs. vs \<in> set cells \<Longrightarrow> length vs = length labels"
  shows "column (table_of labels cells) (labels ! i) = map (\<lambda>vs. vs ! i) cells"
proof -
  have "(case map_of (zip labels vs) (labels ! i) of None \<Rightarrow> NA | Some v \<Rightarrow> v) = vs ! i"
    if "vs \<in> set cells" for vs
    using assms(1,2) assms(3)[OF that] by (simp add: map_of_zip_nth)
  then show ?thesis
    by (simp add: column_def table_of_def comp_def cong: map_cong)
qed

lemma length_read_column: "length (read_column env texts) = length texts"
  by (simp add: read_column_def)

text \<open>A table saved to a \<^verbatim>\<open>.parquet\<close> path and loaded again.\<close>

lemma parquet_round_trip:
  assumes "df p = Some d" and "\<not> empty d" and "cache_file q = cache_file p"
    and "endswith (cache_file p) ''.parquet''"
    and "distinct (columns d)" and "list_all (list_all encodable) (cells_of d)"
    and "list_all (\<lambda>c. homogeneous (column d c)) (columns d)"
  shows "load_from_cache (documented env) (save_cache (documented env) p fs) q
           = (None, q\<lparr>df := Some (table_of (columns d) (cells_of d))\<rparr>)"
proof -
  have "write_parquet d = Inr (Parquet_file (columns d) (cells_of d))"
    using assms(5-7) by (simp add: write_parquet_def)
  then have "save_cache (documented env) p fs
      = fs(cache_file p \<mapsto> Parquet_file (columns d) (cells_of d))"
    using assms(1,2,4) by (simp add: save_cache_def documented_fields)
  then show ?thesis
    using assms(3,4)
    by (simp add: load_from_cache_def load_from_cache_body_def documented_fields parse_parquet_def)
qed

lemma parquet_refused:
  assumes "df p = Some d" and "endswith (cache_file p) ''.parquet''"
    and "\<not> list_all (\<lambda>c. homogeneous (column d c)) (columns d)"
  shows "save_cache (documented env) p fs = fs"
  using assms by (simp add: save_cache_def documented_fields write_parquet_def)

text \<open>A table saved to a \<^verbatim>\<open>.csv\<close> path and loaded again.\<close>

lemma csv_round_trip:
  assumes "df p = Some d" and "\<not> empty d" and "cache_file q = cache_file p"
    and "endswith (cache_file p) ''.csv''"
    and "distinct (columns d)" and "list_all (list_all encodable) (cells_of d)"
    and "[] \<notin> set (columns d)" and "1 < length (columns d)"
    and "list_all (\<lambda>label. regular (ascii label)) (columns d)"
    and "list_all (list_all (\<lambda>c. regular (cell_text env c))) (cells_of d)"
  shows "\<exists>d'. load_from_cache (documented env) (save_cache (documented env) p fs) q
                 = (None, q\<lparr>df := Some d'\<rparr>)
             \<and> columns d' = columns d
             \<and> length (rows d') = length (rows d)
             \<and> (\<forall>c \<in> set (columns d).
                   column d' c = read_column env (map (cell_text env) (column d c)))"
proof -
  define cs where "cs = columns d"
  define lines where "lines = map (map (cell_text env)) (cells_of d)"
  define cols where "cols = map (\<lambda>i. read_column env
      (map (\<lambda>l. if i < length l then l ! i else []) lines)) [0..<length cs]"
  define d' where "d' = table_of cs (map (\<lambda>j. map (\<lambda>col. col ! j) cols) [0..<length lines])"
  have np: "\<not> endswith (cache_file p) ''.parquet''"
    using assms(4) by (rule csv_is_not_parquet)
  have ne: "cs \<noteq> []"
    using assms(2) by (simp add: empty_def cs_def)
  have len_line: "length l = length cs" if "l \<in> set lines" for l
    using that by (auto simp: lines_def cells_of_def cs_def)
  then have fit: "\<not> list_ex (\<lambda>l. length cs < length l) lines"
    by (auto simp: list_ex_iff)
  have "\<not> blank_line l" if "l \<in> set lines" for l
    using len_line[OF that] assms(8) by (simp add: blank_line_def cs_def)
  then have kept: "filter (\<lambda>l. \<not> blank_line l) lines = lines"
    by simp
  have header: "regular_header cs"
    using assms(8,9) by (simp add: regular_header_def cs_def)
  have texts: "list_all (list_all regular) lines"
    using assms(10) by (simp add: lines_def list_all_iff)
  have "write_csv env d = Inr (Csv_file cs lines)"
    using assms(6) by (simp add: write_csv_def cs_def lines_def)
  then have saved: "save_cache (documented env) p fs = fs(cache_file p \<mapsto> Csv_file cs lines)"
    using assms(1,2) np by (simp add: save_cache_def documented_fields)
  have "parse_csv env (Csv_file cs lines) = Inr d'"
    using ne fit assms(5,7) header texts
    by (simp add: parse_csv_def Let_def kept d'_def cols_def cs_def)
  then have loaded: "load_from_cache (documented env) (save_cache (documented env) p fs) q
      = (None, q\<lparr>df := Some d'\<rparr>)"
    using assms(3,4) np
    by (simp add: saved load_from_cache_def load_from_cache_body_def documented_fields)
  have columns: "columns d' = columns d"
    by (simp add: d'_def table_of_def cs_def)
  have n: "length lines = length (rows d)"
    by (simp add: lines_def cells_of_def)
  have rows: "length (rows d') = length (rows d)"
    by (simp add: d'_def table_of_def n)
  have col: "column d' c = read_column env (map (cell_text env) (column d c))"
    if "c \<in> set (columns d)" for c
  proof -
    from that obtain i where i: "i < length cs" and c: "c = cs ! i"
      by (auto simp: in_set_conv_nth cs_def)
    have texts: "map (\<lambda>l. if i < length l then l ! i else []) lines
        = map (cell_text env) (column d c)"
      using i by (simp add: lines_def cells_of_def column_def c cs_def comp_def)
    have "cols ! i = (\<lambda>i. read_column env (map (\<lambda>l. if i < length l then l ! i else []) lines))
                       ([0..<length cs] ! i)"
      unfolding cols_def using i by (intro nth_map) simp
    moreover have "[0..<length cs] ! i = i"
      using i by simp
    ultimately have coli: "cols ! i = read_column env (map (cell_text env) (column d c))"
      by (simp only: texts)
    have leni: "length (cols ! i) = length lines"
      by (simp add: coli length_read_column n column_def)
    have "column d' (cs ! i) = map (\<lambda>vs. vs ! i) (map (\<lambda>j. map (\<lambda>col. col ! j) cols) [0..<length lines])"
      unfolding d'_def
      using assms(5) i by (intro table_of_column) (auto simp: cs_def cols_def)
    also have "\<dots> = map (\<lambda>j. (cols ! i) ! j) [0..<length lines]"
      using i by (simp add: comp_def cols_def)
    also have "\<dots> = cols ! i"
      using map_nth[of "cols ! i"] by (simp add: leni)
    finally show ?thesis
      by (simp add: c coli)
  qed
  show ?thesis
    using loaded columns rows col by blast
qed

lemma read_column_read_as:
  "list_all2 (read_as env) col (read_column env (map (cell_text env) col))"
  by (simp add: read_column_def read_as_def list_all2_map2 list_all2_same)

lemma decimal_text_2: "decimal_text 2 n = [48 + n div 10 mod 10, 48 + n mod 10]"
proof -
  have "(2::nat) = Suc (Suc 0)" by simp
  then show ?thesis by (simp only: decimal_text.simps) simp
qed

lemma decimal_text_4:
  "decimal_text 4 n =
     [48 + n div 10 div 10 div 10 mod 10, 48 + n div 10 div 10 mod 10, 48 + n div 10 mod 10,
      48 + n mod 10]"
proof -
  have "(4::nat) = Suc (Suc (Suc (Suc 0)))" by simp
  then show ?thesis by (simp only: decimal_text.simps) simp
qed

lemma month_texts:
  "cell_text plain_reader (Date (Timestamp 2023 1 1)) = ascii ''2023-01-01''"
  "cell_text plain_reader (Date (Timestamp 2024 1 1)) = ascii ''2024-01-01''"
  by (simp_all add: cell_text_def plain_reader_def ascii_def decimal_text_2 decimal_text_4)

lemma month_texts_read:
  "read_column plain_reader [ascii ''2023-01-01'', ascii ''2023-01-01'', ascii ''2024-01-01'']
     = [Str (ascii ''2023-01-01''), Str (ascii ''2023-01-01''), Str (ascii ''2024-01-01'')]"
proof -
  have "decimal (ascii ''2023-01-01'') = None"
    by (simp add: decimal_def digits_from_def ascii_def)
  moreover have "ascii ''2023-01-01'' \<notin> set na_values" "ascii ''2024-01-01'' \<notin> set na_values"
    "ascii ''2023-01-01'' \<notin> set bool_words"
    by (simp_all add: na_values_def bool_words_def ascii_def)
  ultimately show ?thesis
    by (simp add: read_column_def plain_reader_def)
qed

lemma three_records_cleaned_columns:
  "columns (cleaned plain_pandas y (DataFrame three_records)) =
     [''month'', ''town'', ''resale_price'', ''floor_area_sqm'', ''lease_commence_date'',
      ''price_per_sqm'', ''lease_remaining'']"
  by (simp add: columns_cleaned three_records_columns append_new_def)

lemma three_records_cleaned_cells:
  "cells_of (cleaned plain_pandas 2025 (DataFrame three_records)) =
     [[Date (Timestamp 2023 1 1), Str (ascii ''Bedok''), Num (Fin 410000), Num (Fin 80),
       Date (Timestamp 1985 1 1), Num (Fin 5125), Num (Fin 59)],
      [Date (Timestamp 2023 1 1), Str (ascii ''Ang Mo Kio''), Num (Fin 400000), Num (Fin 90),
       Date (Timestamp 1990 1 1), Num (Fin (40000 / 9)), Num (Fin 64)],
      [Date (Timestamp 2024 1 1), Str (ascii ''Bedok''), Num (Fin 420000), Num (Fin 100),
       Date (Timestamp 2000 1 1), Num (Fin 4200), Num (Fin 74)]]"
  unfolding cells_of_def three_records_cleaned_columns rows_cleaned three_records_prices
    three_records_areas three_records_median three_records_columns
  by (simp add: DataFrame_def three_records_def clean_row_def derive_row_def keep_row_def
      fill_cell_def Let_def plain_pandas_parsers decimal_examples title_strip_bedok
      title_strip_examples)

lemma column_of_cells:
  "i < length (columns d) \<Longrightarrow> column d (columns d ! i) = map (\<lambda>vs. vs ! i) (cells_of d)"
  by (simp add: column_def cells_of_def)

lemma three_records_cleaned_month:
  "column (cleaned plain_pandas 2025 (DataFrame three_records)) ''month''
     = [Date (Timestamp 2023 1 1), Date (Timestamp 2023 1 1), Date (Timestamp 2024 1 1)]"
  using column_of_cells[of 0 "cleaned plain_pandas 2025 (DataFrame three_records)"]
  by (simp add: three_records_cleaned_columns three_records_cleaned_cells)

lemma regular_append: "regular (xs @ ys) \<longleftrightarrow> regular xs \<and> regular ys"
  by (simp add: regular_def)

lemma regular_decimal_text: "regular (decimal_text width n)"
  by (induction width arbitrary: n) (simp_all add: regular_def)

lemma regular_plain_text:
  "(case c of Str s \<Rightarrow> regular s | _ \<Rightarrow> True) \<Longrightarrow> regular (cell_text plain_reader c)"
  by (cases c)
    (simp_all add: cell_text_def plain_reader_def regular_append regular_decimal_text
      split: num.splits, simp_all add: regular_def ascii_def)

lemma three_records_cleaned_storable:
  "distinct (columns (cleaned plain_pandas 2025 (DataFrame three_records)))"
  "[] \<notin> set (columns (cleaned plain_pandas 2025 (DataFrame three_records)))"
  "list_all (list_all encodable) (cells_of (cleaned plain_pandas 2025 (DataFrame three_records)))"
  "\<not> empty (cleaned plain_pandas 2025 (DataFrame three_records))"
  "list_all (\<lambda>c. homogeneous (column (cleaned plain_pandas 2025 (DataFrame three_records)) c))
     (columns (cleaned plain_pandas 2025 (DataFrame three_records)))"
  "1 < length (columns (cleaned plain_pandas 2025 (DataFrame three_records)))"
  "list_all (\<lambda>label. regular (ascii label))
     (columns (cleaned plain_pandas 2025 (DataFrame three_records)))"
  "list_all (list_all (\<lambda>c. regular (cell_text plain_reader c)))
     (cells_of (cleaned plain_pandas 2025 (DataFrame three_records)))"
proof -
  let ?t = "cleaned plain_pandas 2025 (DataFrame three_records)"
  show "distinct (columns ?t)" and "[] \<notin> set (columns ?t)" and "1 < length (columns ?t)"
    by (simp_all add: three_records_cleaned_columns)
  show "list_all (\<lambda>label. regular (ascii label)) (columns ?t)"
    by (simp add: three_records_cleaned_columns regular_def ascii_def)
  show "list_all (list_all (\<lambda>c. regular (cell_text plain_reader c))) (cells_of ?t)"
    by (simp add: three_records_cleaned_cells regular_plain_text)
      (simp add: cell_text_def regular_def ascii_def)
  show "list_all (list_all encodable) (cells_of ?t)"
    by (simp add: three_records_cleaned_cells encodable_def ascii_def)
  show "\<not> empty ?t"
    using three_records_cleaned_length[of 2025]
    by (auto simp: empty_def three_records_cleaned_columns)
  have "homogeneous (column ?t c)" if "c \<in> set (columns ?t)" for c
  proof -
    from that obtain i where len: "i < length (columns ?t)" and c: "c = columns ?t ! i"
      using in_set_conv_nth[of c "columns ?t"] by blast
    from len have "i < 7"
      by (simp add: three_records_cleaned_columns)
    then have "i = 0 \<or> i = 1 \<or> i = 2 \<or> i = 3 \<or> i = 4 \<or> i = 5 \<or> i = 6"
      by linarith
    moreover have "column ?t c = map (\<lambda>vs. vs ! i) (cells_of ?t)"
      unfolding c using len by (rule column_of_cells)
    ultimately show ?thesis
      by (auto simp: three_records_cleaned_cells homogeneous_def)
  qed
  then show "list_all (\<lambda>c. homogeneous (column ?t c)) (columns ?t)"
    by (simp only: list_all_iff) blast
qed





section \<open>The sample strategy on its own\<close>

text \<open>
  What \<^verbatim>\<open>_generate_sample_data\<close> gives when it is called: the two sample rows, cleaned. The
  constructor never calls it (see the section on the orchestrator).
\<close>

lemma sample_columns:
  "columns (DataFrame sample) =
     [''month'', ''town'', ''resale_price'', ''floor_area_sqm'', ''flat_type'', ''lease_commence_date'']"
  by (simp add: DataFrame_def sample_def unique_def)

lemma sample_rows_cleaned:
  "map (\<lambda>r. (r ''town'', r ''resale_price'', r ''floor_area_sqm''))
     (filter keep_row (map (clean_row env y l mp ma ms ls) (rows (DataFrame sample))))
   = [(Str (ascii ''Ang Mo Kio''), Num (Fin 400000), Num (Fin 80)),
      (Str (ascii ''Bedok''), Num (Fin 420000), Num (Fin 85))]"
  by (simp add: DataFrame_def sample_def clean_row_price clean_row_area clean_row_town
      keep_row_def fill_cell_def title_strip_examples)

lemma sample_rows_kept:
  "map (\<lambda>r. (r ''town'', r ''resale_price'', r ''floor_area_sqm''))
     (rows (cleaned env y (DataFrame sample)))
   = [(Str (ascii ''Ang Mo Kio''), Num (Fin 400000), Num (Fin 80)),
      (Str (ascii ''Bedok''), Num (Fin 420000), Num (Fin 85))]"
  unfolding rows_cleaned by (rule sample_rows_cleaned)

lemma generate_sample_data_rows:
  "generate_sample_data env y p = (None, p\<lparr>df := Some (cleaned env y (DataFrame sample))\<rparr>)"
proof -
  have a: "set [''month'', ''resale_price'', ''floor_area_sqm'', ''town''] \<subseteq> set (columns (DataFrame sample))"
    by (simp add: sample_columns)
  have b: "\<not> empty (DataFrame sample)"
    by (simp add: empty_def sample_columns) (simp add: DataFrame_def sample_def)
  have c: "str_accessor (column (DataFrame sample) ''town'')"
    by (simp add: str_accessor_def column_def DataFrame_def sample_def)
  show ?thesis
    by (simp add: generate_sample_data_def clean_data_def b clean_frame_rows[OF a c])
qed


end
